theory Spec2Isabelle
  imports Complex_Main "HOL-Library.AList" "HOL-Library.Sublist"
begin

section \<open>JavaScript values\<close>

text \<open>
  The controller works on dynamically typed values: spreadsheet cells (strings, numbers,
  booleans and, since the workbook is read with \<open>cellDates\<close>, Date objects), JSON request
  bodies and the plain objects it assembles from them. A Date is kept as the UTC fields
  that \<open>toISOString\<close> prints. A number is a rational: every finite double is one, and
  neither a JSON body nor a sheet cell holds NaN or an infinity.
\<close>

record jsdate =
  utcYear :: nat
  utcMonth :: nat
  utcDay :: nat
  utcHours :: nat
  utcMinutes :: nat
  utcSeconds :: nat
  utcMillis :: nat

datatype jsval =
    JUndefined
  | JNull
  | JBool bool
  | JNum rat
  | JStr string
  | JDate jsdate
  | JArr "jsval list"
  | JObj "(string \<times> jsval) list"

text \<open>An object is its list of own properties in key order, each key once.\<close>

type_synonym obj = "(string \<times> jsval) list"

text \<open>JavaScript's ToBoolean: what \<open>if (v)\<close>, \<open>!v\<close> and \<open>a || b\<close> test.\<close>

fun truthy :: "jsval \<Rightarrow> bool" where
  "truthy JUndefined = False"
| "truthy JNull = False"
| "truthy (JBool b) = b"
| "truthy (JNum n) = (n \<noteq> 0)"
| "truthy (JStr s) = (s \<noteq> [])"
| "truthy (JDate d) = True"
| "truthy (JArr xs) = True"
| "truthy (JObj ps) = True"

text \<open>\<open>o[k]\<close>: reading a property that is not there gives \<open>undefined\<close>.\<close>

definition getProp :: "obj \<Rightarrow> string \<Rightarrow> jsval" where
  "getProp ob k = (case map_of ob k of None \<Rightarrow> JUndefined | Some v \<Rightarrow> v)"

text \<open>\<open>o[k] = v\<close>: an existing key keeps its place, a new key goes last.\<close>

definition setProp :: "string \<Rightarrow> jsval \<Rightarrow> obj \<Rightarrow> obj" where
  "setProp k v ob = AList.update k v ob"

text \<open>\<open>delete o[k]\<close>.\<close>

definition deleteProp :: "string \<Rightarrow> obj \<Rightarrow> obj" where
  "deleteProp k ob = AList.delete k ob"

section \<open>Strings\<close>

text \<open>
  A string is a list of bytes. \<open>toLowerCase\<close>, \<open>toUpperCase\<close> and \<open>trim\<close> are modelled on
  the ASCII range: letters A to Z change case, and the white space removed is space, tab,
  line feed, vertical tab, form feed and carriage return. The case mappings and the white
  space of code points beyond ASCII are not modelled.
\<close>

definition lowerChar :: "char \<Rightarrow> char" where
  "lowerChar c =
     (case map_of (zip ''ABCDEFGHIJKLMNOPQRSTUVWXYZ'' ''abcdefghijklmnopqrstuvwxyz'') c of
        Some l \<Rightarrow> l | None \<Rightarrow> c)"

definition upperChar :: "char \<Rightarrow> char" where
  "upperChar c =
     (case map_of (zip ''abcdefghijklmnopqrstuvwxyz'' ''ABCDEFGHIJKLMNOPQRSTUVWXYZ'') c of
        Some u \<Rightarrow> u | None \<Rightarrow> c)"

definition toLowerCase :: "string \<Rightarrow> string" where
  "toLowerCase s = map lowerChar s"

definition toUpperCase :: "string \<Rightarrow> string" where
  "toUpperCase s = map upperChar s"

definition isSpace :: "char \<Rightarrow> bool" where
  "isSpace c = (c \<in> set [CHR '' '', CHR 0x09, CHR 0x0A, CHR 0x0B, CHR 0x0C, CHR 0x0D])"

definition trim :: "string \<Rightarrow> string" where
  "trim s = rev (dropWhile isSpace (rev (dropWhile isSpace s)))"

text \<open>\<open>s.includes(sub)\<close>: \<open>sub\<close> occurs in \<open>s\<close> as a contiguous run.\<close>

fun includes_str :: "string \<Rightarrow> string \<Rightarrow> bool" where
  "includes_str [] sub = (sub = [])"
| "includes_str (c # cs) sub = (prefix sub (c # cs) \<or> includes_str cs sub)"

text \<open>\<open>String(n)\<close> for a non-negative integer: its decimal digits, no leading zero.\<close>

definition decimalDigits :: string where
  "decimalDigits = ''0123456789''"

definition digitChar :: "nat \<Rightarrow> char" where
  "digitChar n = decimalDigits ! n"

fun String :: "nat \<Rightarrow> string" where
  "String n = (if n < 10 then [digitChar n] else String (n div 10) @ [digitChar (n mod 10)])"

declare String.simps [simp del]

text \<open>\<open>s.padStart(n, c)\<close> with a one-character filler: a string already long enough is unchanged.\<close>

definition padStart :: "nat \<Rightarrow> char \<Rightarrow> string \<Rightarrow> string" where
  "padStart n c s = replicate (n - length s) c @ s"

text \<open>\<open>s.slice(i, j)\<close> for \<open>0 \<le> i \<le> j\<close>.\<close>

definition slice :: "nat \<Rightarrow> nat \<Rightarrow> 'a list \<Rightarrow> 'a list" where
  "slice i j s = take (j - i) (drop i s)"

text \<open>\<open>s.replace(/c/g, '')\<close>: every occurrence of the character is removed.\<close>

definition removeAll_char :: "char \<Rightarrow> string \<Rightarrow> string" where
  "removeAll_char c s = filter (\<lambda>x. x \<noteq> c) s"

text \<open>
  \<open>Date.prototype.toISOString\<close>: \<open>YYYY-MM-DDTHH:mm:ss.sssZ\<close>, and the expanded year
  \<open>+YYYYYY\<close> beyond the year 9999.
\<close>

definition toISOString :: "jsdate \<Rightarrow> string" where
  "toISOString d =
     (if utcYear d \<le> 9999 then padStart 4 (CHR ''0'') (String (utcYear d))
      else CHR ''+'' # padStart 6 (CHR ''0'') (String (utcYear d)))
     @ ''-'' @ padStart 2 (CHR ''0'') (String (utcMonth d))
     @ ''-'' @ padStart 2 (CHR ''0'') (String (utcDay d))
     @ ''T'' @ padStart 2 (CHR ''0'') (String (utcHours d))
     @ '':'' @ padStart 2 (CHR ''0'') (String (utcMinutes d))
     @ '':'' @ padStart 2 (CHR ''0'') (String (utcSeconds d))
     @ ''.'' @ padStart 3 (CHR ''0'') (String (utcMillis d))
     @ ''Z''"

section \<open>Errors, responses and the store interface\<close>

text \<open>
  The per-row failure a bulk write reports (\<open>err.writeErrors[n]\<close>): the position of the row
  in the submitted batch, and the texts \<open>errmsg\<close> and \<open>message\<close>, either of which may be
  missing.
\<close>

record write_error =
  we_index :: nat
  we_errmsg :: "string option"
  we_message :: "string option"

text \<open>
  A thrown error, with the properties the controller and the error handler read:
  \<open>name\<close>, \<open>message\<close>, \<open>statusCode\<close>, \<open>code\<close>, the keys of \<open>keyValue\<close>, the messages of
  \<open>errors\<close>, and the partial results \<open>insertedDocs\<close> and \<open>writeErrors\<close> of a bulk write.
\<close>

record js_error =
  errName :: string
  errMessage :: "string option"
  statusCode :: "nat option"
  errCode :: "nat option"
  keyValueKeys :: "string list"
  errorMessages :: "string list"
  insertedDocs :: "obj list option"
  writeErrors :: "write_error list option"

text \<open>What calling a method that a value does not have throws.\<close>

definition TypeError :: "string \<Rightarrow> js_error" where
  "TypeError msg =
     \<lparr>errName = ''TypeError'', errMessage = Some msg, statusCode = None, errCode = None,
      keyValueKeys = [], errorMessages = [], insertedDocs = None, writeErrors = None\<rparr>"

text \<open>\<open>await Asset.insertMany(batch, { ordered: false })\<close> either resolves to the inserted
  documents or rejects with an error.\<close>

datatype insert_result = Resolved "obj list" | Rejected js_error

text \<open>The store is a parameter of the handlers: a function from its state and a batch to
  the result of the call and the state afterwards.\<close>

type_synonym 's insertMany = "'s \<Rightarrow> obj list \<Rightarrow> insert_result \<times> 's"

record response =
  status :: nat
  success :: bool
  rdata :: jsval
  rmessage :: string

text \<open>A handler either sends a response or passes an error on with \<open>next(err)\<close>.\<close>

datatype outcome = Sent response | Next js_error

definition send :: "nat \<Rightarrow> jsval \<Rightarrow> string \<Rightarrow> outcome" where
  "send st d m = Sent \<lparr>status = st, success = (st < 400), rdata = d, rmessage = m\<rparr>"

text \<open>The generic error handler that \<open>next(err)\<close> reaches.\<close>

fun join_comma :: "string list \<Rightarrow> string" where
  "join_comma [] = []"
| "join_comma [x] = x"
| "join_comma (x # y # ys) = x @ '', '' @ join_comma (y # ys)"

definition errorHandler :: "js_error \<Rightarrow> response" where
  "errorHandler err =
     (let status0 = (case statusCode err of None \<Rightarrow> 500 | Some c \<Rightarrow> if c = 0 then 500 else c);
          message0 = (case errMessage err of None \<Rightarrow> ''Server Error''
                      | Some m \<Rightarrow> if m = [] then ''Server Error'' else m);
          (status1, message1) =
             (if errName err = ''CastError'' then (400, ''Invalid ID format'') else (status0, message0));
          (status2, message2) =
             (if errCode err = Some 11000
              then (409, ''Duplicate: '' @ (case keyValueKeys err of [] \<Rightarrow> ''undefined'' | k # ks \<Rightarrow> k))
              else (status1, message1));
          (status3, message3) =
             (if errName err = ''ValidationError'' then (400, join_comma (errorMessages err))
              else (status2, message2))
      in \<lparr>status = status3, success = False, rdata = JUndefined, rmessage = message3\<rparr>)"

section \<open>Spreadsheet import: the column mapper\<close>

text \<open>The alias table of \<open>uploadExcel\<close>: lower-cased, trimmed header to schema field.\<close>

definition columnMap :: "(string \<times> string) list" where
  "columnMap = [
      (''serialnumber'', ''serialNumber''), (''serial number'', ''serialNumber''),
      (''serial_number'', ''serialNumber''), (''sn'', ''serialNumber''),
      (''sr no'', ''serialNumber''), (''sr.no'', ''serialNumber''), (''sr. no'', ''serialNumber''),
      (''srno'', ''serialNumber''), (''sl no'', ''serialNumber''), (''sl.no'', ''serialNumber''),
      (''slno'', ''serialNumber''), (''asset id'', ''serialNumber''),
      (''assetid'', ''serialNumber''), (''asset_id'', ''serialNumber''),
      (''companyname'', ''companyName''), (''company name'', ''companyName''),
      (''company'', ''companyName''), (''organization'', ''companyName''),
      (''org'', ''companyName''), (''firm'', ''companyName''), (''branch'', ''branch''),
      (''location'', ''branch''), (''site'', ''branch''), (''office'', ''branch''),
      (''department'', ''department''), (''dept'', ''department''), (''division'', ''department''),
      (''team'', ''department''), (''username'', ''userName''), (''user name'', ''userName''),
      (''user'', ''userName''), (''name'', ''userName''), (''employee'', ''userName''),
      (''employee name'', ''userName''), (''employeename'', ''userName''),
      (''assigned to'', ''userName''), (''assignedto'', ''userName''),
      (''assigned'', ''userName''), (''brand'', ''brand''), (''make'', ''brand''),
      (''manufacturer'', ''brand''), (''vendor'', ''brand''), (''device'', ''device''),
      (''device type'', ''device''), (''devicetype'', ''device''), (''type'', ''device''),
      (''asset type'', ''device''), (''assettype'', ''device''), (''equipment'', ''device''),
      (''category'', ''device''), (''deviceserialno'', ''deviceSerialNo''),
      (''device serial no'', ''deviceSerialNo''), (''device serial'', ''deviceSerialNo''),
      (''device_serial'', ''deviceSerialNo''), (''device serial number'', ''deviceSerialNo''),
      (''deviceserialnumber'', ''deviceSerialNo''), (''equipment serial'', ''deviceSerialNo''),
      (''equipment serial no'', ''deviceSerialNo''), (''asset serial'', ''deviceSerialNo''),
      (''asset serial no'', ''deviceSerialNo''), (''serial no'', ''deviceSerialNo''),
      (''serialno'', ''deviceSerialNo''), (''product serial'', ''deviceSerialNo''),
      (''device s.no'', ''deviceSerialNo''), (''device sno'', ''deviceSerialNo''),
      (''operatingsystem'', ''operatingSystem''), (''operating system'', ''operatingSystem''),
      (''os'', ''operatingSystem''), (''dateofpurchase'', ''dateOfPurchase''),
      (''date of purchase'', ''dateOfPurchase''), (''purchase date'', ''dateOfPurchase''),
      (''purchasedate'', ''dateOfPurchase''), (''purchase_date'', ''dateOfPurchase''),
      (''purchased on'', ''dateOfPurchase''), (''date'', ''dateOfPurchase''),
      (''bought on'', ''dateOfPurchase''), (''acquisition date'', ''dateOfPurchase''),
      (''purchase'', ''dateOfPurchase''), (''remark'', ''remark''), (''remarks'', ''remark''),
      (''notes'', ''remark''), (''comment'', ''remark''), (''comments'', ''remark''),
      (''description'', ''remark''), (''status'', ''status''), (''state'', ''status''),
      (''condition'', ''status'')]"

text \<open>
  \<open>columnMap[normalizedKey]\<close>. The table is an object literal, so the two lower-case names
  it inherits from \<open>Object.prototype\<close> are found too; used as a property key, the inherited
  value becomes its string form.
\<close>

definition columnMap_lookup :: "string \<Rightarrow> string option" where
  "columnMap_lookup k =
     (if k = ''constructor'' then Some ''function Object() { [native code] }''
      else if k = ''__proto__'' then Some ''[object Object]''
      else map_of columnMap k)"

text \<open>\<open>typeof value === 'string' ? value.trim() : value\<close>.\<close>

definition trimCell :: "jsval \<Rightarrow> jsval" where
  "trimCell value = (case value of JStr s \<Rightarrow> JStr (trim s) | _ \<Rightarrow> value)"

text \<open>
  What the body of \<open>Object.keys(row).forEach\<close> assigns to a schema field. \<open>new Date(value)\<close>
  is a parameter: \<open>parseDate value\<close> is \<open>None\<close> when the constructed Date is invalid.
\<close>

definition cellValue :: "(jsval \<Rightarrow> jsdate option) \<Rightarrow> string \<Rightarrow> jsval \<Rightarrow> jsval" where
  "cellValue parseDate schemaField value =
     (if schemaField = ''dateOfPurchase'' \<and> truthy value then
        (case value of
           JDate d \<Rightarrow> value
         | _ \<Rightarrow> (case parseDate value of None \<Rightarrow> JNull | Some parsed \<Rightarrow> JDate parsed))
      else trimCell value)"

text \<open>The body of the \<open>forEach\<close> for one header of the row.\<close>

definition mapCell :: "(jsval \<Rightarrow> jsdate option) \<Rightarrow> obj \<Rightarrow> string \<times> jsval \<Rightarrow> obj" where
  "mapCell parseDate asset kv =
     (let normalizedKey = trim (toLowerCase (fst kv)) in
      case columnMap_lookup normalizedKey of
        None \<Rightarrow> asset
      | Some schemaField \<Rightarrow> setProp schemaField (cellValue parseDate schemaField (snd kv)) asset)"

definition mapColumns :: "(jsval \<Rightarrow> jsdate option) \<Rightarrow> jsval \<Rightarrow> obj \<Rightarrow> obj" where
  "mapColumns parseDate createdBy row = foldl (mapCell parseDate) [(''createdBy'', createdBy)] row"

section \<open>Spreadsheet import: the row normalizer\<close>

definition textFields :: "string list" where
  "textFields = [''companyName'', ''branch'', ''department'', ''userName'', ''brand'', ''device'',
     ''deviceSerialNo'', ''operatingSystem'', ''remark'']"

definition defaultField :: "obj \<Rightarrow> string \<Rightarrow> obj" where
  "defaultField asset field =
     (if \<not> truthy (getProp asset field) \<or> getProp asset field = JStr []
      then setProp field (JStr ''NA'') asset else asset)"

definition defaultText :: "obj \<Rightarrow> obj" where
  "defaultText asset = foldl defaultField asset textFields"

definition validDevices :: "string list" where
  "validDevices = [''Desktop'', ''Laptop'', ''Tablet'', ''Monitor'', ''Printer'', ''Scanner'', ''Server'',
     ''Network Device'', ''Other'', ''NA'']"

text \<open>The device enum of the request validator (\<open>DEVICES\<close> of \<open>asset.validator.js\<close>); the
  list above is this enum and \<open>NA\<close>.\<close>

definition DEVICES :: "string list" where
  "DEVICES = [''Desktop'', ''Laptop'', ''Tablet'', ''Monitor'', ''Printer'', ''Scanner'', ''Server'',
     ''Network Device'', ''Other'']"

text \<open>
  The device block. \<open>asset.device.toLowerCase()\<close> is called inside the \<open>find\<close> callback on
  whatever truthy value the cell held: a number, a boolean or a Date has no such method,
  and the call throws.
\<close>

definition matchDevice :: "string \<Rightarrow> string" where
  "matchDevice s =
     (let matchedDevice = find (\<lambda>d. toLowerCase d = toLowerCase s) validDevices in
      case matchedDevice of Some d \<Rightarrow> d | None \<Rightarrow> ''Other'')"

definition normalizeDevice :: "obj \<Rightarrow> js_error + obj" where
  "normalizeDevice asset =
     (if truthy (getProp asset ''device'') then
        (case getProp asset ''device'' of
           JStr s \<Rightarrow> Inr (setProp ''device'' (JStr (matchDevice s)) asset)
         | _ \<Rightarrow> Inl (TypeError ''asset.device.toLowerCase is not a function''))
      else Inr (setProp ''device'' (JStr ''Other'') asset))"

definition defaultStatus :: "obj \<Rightarrow> obj" where
  "defaultStatus asset =
     (if \<not> truthy (getProp asset ''status'') \<or> getProp asset ''status'' = JStr []
      then setProp ''status'' (JStr ''Active'') asset else asset)"

text \<open>\<open>now\<close> is what \<open>new Date()\<close> returns when the block runs.\<close>

definition defaultDate :: "jsdate \<Rightarrow> obj \<Rightarrow> obj" where
  "defaultDate now asset =
     (if \<not> truthy (getProp asset ''dateOfPurchase'')
      then setProp ''dateOfPurchase'' (JDate now) asset else asset)"

definition generatedSerial :: "jsdate \<Rightarrow> nat \<Rightarrow> string" where
  "generatedSerial now index =
     (let dateStr = removeAll_char (CHR ''-'') (slice 0 10 (toISOString now));
          timeStr = removeAll_char (CHR '':'') (slice 11 19 (toISOString now))
      in ''IT-'' @ dateStr @ ''-'' @ timeStr @ ''-'' @ padStart 4 (CHR ''0'') (String (index + 1)))"

definition autoSerial :: "jsdate \<Rightarrow> nat \<Rightarrow> obj \<Rightarrow> obj" where
  "autoSerial now index asset =
     (if \<not> truthy (getProp asset ''serialNumber'') \<or> getProp asset ''serialNumber'' = JStr []
         \<or> getProp asset ''serialNumber'' = JStr ''NA''
      then setProp ''serialNumber'' (JStr (generatedSerial now index)) asset else asset)"

text \<open>
  The callback of \<open>rawData.map\<close> for the row at \<open>index\<close>. The clock gives the two readings
  of \<open>new Date()\<close> the callback may take on that row: for the default date and for the serial.
\<close>

type_synonym clock = "nat \<Rightarrow> jsdate \<times> jsdate"

definition normalizeRow :: "(jsval \<Rightarrow> jsdate option) \<Rightarrow> clock \<Rightarrow> jsval \<Rightarrow> nat \<Rightarrow> obj \<Rightarrow> js_error + obj" where
  "normalizeRow parseDate clk createdBy index row =
     (case normalizeDevice (defaultText (mapColumns parseDate createdBy row)) of
        Inl err \<Rightarrow> Inl err
      | Inr asset \<Rightarrow>
          Inr (setProp ''_rowIndex'' (JNum (of_nat (index + 2)))
                (autoSerial (snd (clk index)) index
                  (defaultDate (fst (clk index)) (defaultStatus asset)))))"

text \<open>\<open>rawData.map((row, index) => ...)\<close>: the first row that throws ends the map.\<close>

fun normalizeRows :: "(jsval \<Rightarrow> jsdate option) \<Rightarrow> clock \<Rightarrow> jsval \<Rightarrow> nat \<Rightarrow> obj list \<Rightarrow> js_error + obj list" where
  "normalizeRows parseDate clk createdBy index [] = Inr []"
| "normalizeRows parseDate clk createdBy index (row # rows) =
     (case normalizeRow parseDate clk createdBy index row of
        Inl err \<Rightarrow> Inl err
      | Inr asset \<Rightarrow>
          (case normalizeRows parseDate clk createdBy (Suc index) rows of
             Inl err \<Rightarrow> Inl err
           | Inr assets \<Rightarrow> Inr (asset # assets)))"

section \<open>Spreadsheet import: the row filter\<close>

definition dataFields :: "string list" where
  "dataFields = [''companyName'', ''branch'', ''department'', ''userName'', ''brand'', ''device'',
     ''deviceSerialNo'']"

definition hasData :: "obj \<Rightarrow> bool" where
  "hasData asset =
     list_ex (\<lambda>f. truthy (getProp asset f) \<and> getProp asset f \<noteq> JStr ''NA'' \<and> getProp asset f \<noteq> JStr [])
       dataFields"

text \<open>\<open>assets.filter\<close>: a retained row loses its \<open>_rowIndex\<close>.\<close>

definition filterValid :: "obj list \<Rightarrow> obj list" where
  "filterValid assets = map (deleteProp ''_rowIndex'') (filter hasData assets)"

section \<open>Spreadsheet import: the batch inserter and the report\<close>

record results =
  inserted :: "obj list"
  errors :: "jsval list"

definition batchSize :: nat where
  "batchSize = 500"

text \<open>The entry \<open>uploadExcel\<close> records for one write error of a batch.\<close>

definition errorEntry :: "obj list \<Rightarrow> write_error \<Rightarrow> jsval" where
  "errorEntry batch e =
     JObj [(''serialNumber'',
              if we_index e < length batch then getProp (batch ! we_index e) ''serialNumber''
              else JUndefined),
           (''message'',
              case we_errmsg e of
                None \<Rightarrow> JUndefined
              | Some m \<Rightarrow> if includes_str m ''duplicate'' then JStr ''Duplicate serial number'' else JStr m)]"

text \<open>
  One turn of the batch loop: the \<open>try\<close> appends what the store inserted; the \<open>catch\<close>
  appends the partial results an error carries, and lets every error go at that.
\<close>

definition insertBatch :: "'s insertMany \<Rightarrow> obj list \<Rightarrow> results \<times> 's \<Rightarrow> results \<times> 's" where
  "insertBatch insertMany batch acc =
     (case insertMany (snd acc) batch of
        (Resolved docs, st') \<Rightarrow> ((fst acc)\<lparr>inserted := inserted (fst acc) @ docs\<rparr>, st')
      | (Rejected err, st') \<Rightarrow>
          (let r1 = (case insertedDocs err of
                       Some docs \<Rightarrow> (fst acc)\<lparr>inserted := inserted (fst acc) @ docs\<rparr>
                     | None \<Rightarrow> fst acc);
               r2 = (case writeErrors err of
                       Some wes \<Rightarrow> r1\<lparr>errors := errors r1 @ map (errorEntry batch) wes\<rparr>
                     | None \<Rightarrow> r1)
           in (r2, st')))"

function insertBatches :: "'s insertMany \<Rightarrow> nat \<Rightarrow> obj list \<Rightarrow> results \<times> 's \<Rightarrow> results \<times> 's" where
  "insertBatches insertMany i validAssets acc =
     (if i < length validAssets
      then insertBatches insertMany (i + batchSize) validAssets
             (insertBatch insertMany (slice i (i + batchSize) validAssets) acc)
      else acc)"
  by pat_completeness auto
termination
  by (relation "measure (\<lambda>(insertMany, i, validAssets, acc). length validAssets - i)")
     (auto simp: batchSize_def)

declare insertBatches.simps [simp del]

text \<open>The file of an upload request, as \<open>XLSX.read\<close> and \<open>sheet_to_json\<close> see it: reading
  throws, or the first sheet gives its rows.\<close>

datatype xlsx_read = ReadThrows js_error | Sheet "obj list"

record upload_request =
  req_file :: "xlsx_read option"
  req_createdBy :: jsval

text \<open>The \<open>catch\<close> around the whole of \<open>uploadExcel\<close>.\<close>

definition catchUpload :: "js_error \<Rightarrow> outcome" where
  "catchUpload err =
     (if (case errMessage err of Some m \<Rightarrow> includes_str m ''Encrypted'' | None \<Rightarrow> False)
      then send 400 JNull ''Cannot read password-protected Excel files''
      else Next err)"

definition expectedColumns :: "string list" where
  "expectedColumns = [''companyName'', ''branch'', ''department'', ''userName'', ''brand'', ''device'',
     ''deviceSerialNo'', ''dateOfPurchase'', ''operatingSystem'', ''remark'', ''status'']"

definition emptyRowsData :: "obj list \<Rightarrow> jsval" where
  "emptyRowsData rawData =
     JObj [(''detectedHeaders'', JArr (map JStr (case rawData of [] \<Rightarrow> [] | row # rows \<Rightarrow> map fst row))),
           (''message'', JStr ''All rows appear to be empty. Make sure your Excel has data in at least one of these columns.''),
           (''expectedColumns'', JArr (map JStr expectedColumns))]"

definition uploadReport :: "obj list \<Rightarrow> obj list \<Rightarrow> results \<Rightarrow> outcome" where
  "uploadReport rawData validAssets res =
     send 201
       (JObj [(''totalRows'', JNum (of_nat (length rawData))),
              (''created'', JNum (of_nat (length (inserted res)))),
              (''failed'', JNum (of_nat (length (errors res)))),
              (''skippedEmptyRows'', JNum (of_nat (length rawData) - of_nat (length validAssets))),
              (''insertErrors'', JArr (take 50 (errors res)))])
       (''Excel processed: '' @ String (length (inserted res)) @ '' created, ''
          @ String (length (errors res)) @ '' failed'')"

definition uploadExcel ::
  "(jsval \<Rightarrow> jsdate option) \<Rightarrow> clock \<Rightarrow> 's insertMany \<Rightarrow> 's \<Rightarrow> upload_request \<Rightarrow> outcome \<times> 's" where
  "uploadExcel parseDate clk insertMany st req =
     (case req_file req of
        None \<Rightarrow> (send 400 JNull ''Please upload an Excel file'', st)
      | Some f \<Rightarrow>
          if \<not> truthy (req_createdBy req) then (send 400 JNull ''createdBy (user ID) is required'', st)
          else
            (case f of
               ReadThrows err \<Rightarrow> (catchUpload err, st)
             | Sheet rawData \<Rightarrow>
                 if rawData = [] then (send 400 JNull ''Excel file is empty'', st)
                 else if length rawData > 5000
                 then (send 400 JNull ''Maximum 5000 records allowed per file'', st)
                 else
                   (case normalizeRows parseDate clk (req_createdBy req) 0 rawData of
                      Inl err \<Rightarrow> (catchUpload err, st)
                    | Inr assets \<Rightarrow>
                        (let validAssets = filterValid assets in
                         if validAssets = []
                         then (send 400 (emptyRowsData rawData)
                                 ''No valid records found. Check that your Excel has data.'', st)
                         else
                           (let fin = insertBatches insertMany 0 validAssets
                                        (\<lparr>inserted = [], errors = []\<rparr>, st)
                            in (uploadReport rawData validAssets (fst fin), snd fin))))))"

section \<open>JSON bulk import\<close>

text \<open>\<open>{ ...asset }\<close>: the own enumerable properties of the value; a primitive other than a
  string has none.\<close>

fun spread :: "jsval \<Rightarrow> obj" where
  "spread (JObj ps) = ps"
| "spread (JArr xs) = zip (map String [0..<length xs]) xs"
| "spread (JStr s) = zip (map String [0..<length s]) (map (\<lambda>c. JStr [c]) s)"
| "spread v = []"

definition withCreator :: "jsval \<Rightarrow> jsval \<Rightarrow> obj" where
  "withCreator createdBy asset = setProp ''createdBy'' createdBy (spread asset)"

text \<open>\<open>e.errmsg || e.message\<close>.\<close>

definition bulkErrorEntry :: "write_error \<Rightarrow> jsval" where
  "bulkErrorEntry e =
     JObj [(''index'', JNum (of_nat (we_index e))),
           (''message'',
              case we_errmsg e of
                Some m \<Rightarrow> if m \<noteq> [] then JStr m
                          else (case we_message e of Some m' \<Rightarrow> JStr m' | None \<Rightarrow> JUndefined)
              | None \<Rightarrow> (case we_message e of Some m' \<Rightarrow> JStr m' | None \<Rightarrow> JUndefined))]"

definition bulkReport :: "obj list \<Rightarrow> write_error list \<Rightarrow> outcome" where
  "bulkReport docs errs =
     send 201
       (JObj [(''created'', JNum (of_nat (length docs))),
              (''failed'', JNum (of_nat (length errs))),
              (''assets'', JArr (map JObj docs)),
              (''errors'', JArr (map bulkErrorEntry errs))])
       (String (length docs) @ '' assets created, '' @ String (length errs) @ '' failed'')"

text \<open>What \<open>bulkCreateAssets\<close> does with the result of its one call of the store: an error
  with \<open>insertedDocs\<close> is turned into a report, any other error is thrown again and reaches
  \<open>next(err)\<close>.\<close>

definition bulkRespond :: "insert_result \<times> 's \<Rightarrow> outcome \<times> 's" where
  "bulkRespond res =
     (case res of
        (Resolved docs, st') \<Rightarrow> (bulkReport docs [], st')
      | (Rejected err, st') \<Rightarrow>
          (case insertedDocs err of
             Some docs \<Rightarrow>
               (bulkReport docs (case writeErrors err of None \<Rightarrow> [] | Some es \<Rightarrow> es), st')
           | None \<Rightarrow> (Next err, st')))"

text \<open>\<open>bulkCreateAssets\<close>, on the \<open>assets\<close> and \<open>createdBy\<close> of the request body.\<close>

definition bulkCreateAssets :: "'s insertMany \<Rightarrow> 's \<Rightarrow> jsval \<Rightarrow> jsval \<Rightarrow> outcome \<times> 's" where
  "bulkCreateAssets insertMany st assets createdBy =
     (case assets of
        JArr elems \<Rightarrow>
          if elems = [] then (send 400 JNull ''Provide an array of assets'', st)
          else if length elems > 1000
          then (send 400 JNull ''Maximum 1000 assets allowed per batch'', st)
          else if \<not> truthy createdBy then (send 400 JNull ''createdBy (user ID) is required'', st)
          else
            (let assetsWithCreator = map (withCreator createdBy) elems in
             bulkRespond (insertMany st assetsWithCreator))
      | _ \<Rightarrow> (send 400 JNull ''Provide an array of assets'', st))"

section \<open>The asset store\<close>

text \<open>
  The Asset schema is among the sources. Its serial number is declared
  \<open>serialNumber: { type: String, required: true, unique: true, trim: true, uppercase: true }\<close>:
  the submitted value is cast to a string, trimmed and put in upper case, a record without
  one is refused, and no two records of the store have the same one. What the schema does
  not say is how the store behaves; that part is taken from the spec and is marked so
  below. The parameters of the store are the texts the library and the database produce
  (of a number, of a Date, of the duplicate error for a serial, of the missing-serial
  error) and the constraints on the other fields.
\<close>

record store_env =
  numberText :: "rat \<Rightarrow> string"
  dateText :: "jsdate \<Rightarrow> string"
  duplicateText :: "string \<Rightarrow> string"
  requiredText :: string
  fieldConstraint :: "obj \<Rightarrow> string option"

text \<open>
  The cast of a value to the schema type \<open>String\<close>: a string is itself, a number, a boolean
  and a Date give their \<open>toString()\<close>, an object with a string \<open>_id\<close> gives that, and there
  is no string for \<open>null\<close>, \<open>undefined\<close>, an array or any other object.
\<close>

definition castString :: "store_env \<Rightarrow> jsval \<Rightarrow> string option" where
  "castString env v =
     (case v of
        JStr s \<Rightarrow> Some s
      | JNum n \<Rightarrow> Some (numberText env n)
      | JBool b \<Rightarrow> Some (if b then ''true'' else ''false'')
      | JDate d \<Rightarrow> Some (dateText env d)
      | JObj ps \<Rightarrow> (case getProp ps ''_id'' of
                     JStr s \<Rightarrow> if s \<noteq> [] then Some s else None
                   | _ \<Rightarrow> None)
      | _ \<Rightarrow> None)"

text \<open>
  The serial number of a submitted row as the schema makes it: cast to a string, trimmed,
  in upper case. There is none when there is no string to cast to or the result is empty,
  which \<open>required\<close> refuses.
\<close>

definition serialKey :: "store_env \<Rightarrow> obj \<Rightarrow> string option" where
  "serialKey env r =
     (case castString env (getProp r ''serialNumber'') of
        None \<Rightarrow> None
      | Some s \<Rightarrow> if toUpperCase (trim s) = [] then None else Some (toUpperCase (trim s)))"

text \<open>
  The record as the store keeps it. Only the \<open>serialNumber\<close> path of the schema is applied:
  the other properties stay as they were submitted (the casts and defaults of the other
  paths, the generated \<open>_id\<close> and the timestamps are left out; no property below reads them).
\<close>

definition persist :: "store_env \<Rightarrow> obj \<Rightarrow> obj" where
  "persist env r =
     (case serialKey env r of
        Some k \<Rightarrow> setProp ''serialNumber'' (JStr k) r
      | None \<Rightarrow> r)"

text \<open>The serial number a record of the store holds.\<close>

definition storedSerial :: "obj \<Rightarrow> string option" where
  "storedSerial doc = (case getProp doc ''serialNumber'' of JStr s \<Rightarrow> Some s | _ \<Rightarrow> None)"

text \<open>
  Modelled from the spec: the store's \<open>insertMany(records, {ordered:false})\<close> is library
  code, not among the sources. The spec gives it a uniqueness of the serial number that the
  store itself enforces among all its records, and an unordered bulk insert in which a row
  that fails (a duplicate serial, or a field-level constraint) does not block the remaining
  rows, the failures being reported as \<open>writeErrors[{index, errmsg}]\<close> beside the inserted
  records. \<open>rowFailure\<close> says why the store refuses a row, if it does.
\<close>

definition rowFailure :: "store_env \<Rightarrow> obj list \<Rightarrow> obj \<Rightarrow> string option" where
  "rowFailure env docs r =
     (case fieldConstraint env r of
        Some msg \<Rightarrow> Some msg
      | None \<Rightarrow>
          (case serialKey env r of
             None \<Rightarrow> Some (requiredText env)
           | Some k \<Rightarrow> if Some k \<in> set (map storedSerial docs) then Some (duplicateText env k) else None))"

text \<open>Modelled from the spec: the unordered insert. The rows are taken in order, \<open>i\<close> being
  the position of the next one; a refused row is reported and the rows after it are still
  inserted.\<close>

fun insertUnordered ::
  "store_env \<Rightarrow> nat \<Rightarrow> obj list \<Rightarrow> obj list \<Rightarrow> obj list \<times> write_error list \<times> obj list" where
  "insertUnordered env i [] docs = ([], [], docs)"
| "insertUnordered env i (r # rs) docs =
     (case rowFailure env docs r of
        Some msg \<Rightarrow>
          (case insertUnordered env (Suc i) rs docs of
             (ins, errs, docs') \<Rightarrow>
               (ins, \<lparr>we_index = i, we_errmsg = Some msg, we_message = None\<rparr> # errs, docs'))
      | None \<Rightarrow>
          (case insertUnordered env (Suc i) rs (docs @ [persist env r]) of
             (ins, errs, docs') \<Rightarrow> (persist env r # ins, errs, docs')))"

text \<open>Modelled from the spec: the error a bulk write with refused rows rejects with; it
  carries the inserted records and the write errors.\<close>

definition bulkWriteError :: "obj list \<Rightarrow> write_error list \<Rightarrow> js_error" where
  "bulkWriteError ins errs =
     \<lparr>errName = ''MongoBulkWriteError'', errMessage = None, statusCode = None, errCode = None,
      keyValueKeys = [], errorMessages = [], insertedDocs = Some ins, writeErrors = Some errs\<rparr>"

text \<open>Modelled from the spec: \<open>insertMany(records, {ordered:false})\<close> on a store that holds
  \<open>docs\<close>.\<close>

definition storeInsertMany :: "store_env \<Rightarrow> obj list insertMany" where
  "storeInsertMany env docs batch =
     (case insertUnordered env 0 batch docs of
        (ins, errs, docs') \<Rightarrow>
          (if errs = [] then Resolved ins else Rejected (bulkWriteError ins errs), docs'))"

section \<open>Notions for stating the properties\<close>

text \<open>
  The cell of a row that ends up in a schema field: the headers are visited in order and a
  later header that maps to the same field overwrites an earlier one, so it is the last
  cell whose lower-cased, trimmed header the alias table maps to the field.
\<close>

definition mappedCell :: "string \<Rightarrow> obj \<Rightarrow> jsval option" where
  "mappedCell field row =
     map_option snd (find (\<lambda>kv. columnMap_lookup (trim (toLowerCase (fst kv))) = Some field) (rev row))"

text \<open>The serial cell of a row is absent, or blank after trimming (or a zero or \<open>false\<close>), or
  the placeholder \<open>NA\<close>.\<close>

definition serialMissing :: "obj \<Rightarrow> bool" where
  "serialMissing row =
     (case mappedCell ''serialNumber'' row of
        None \<Rightarrow> True
      | Some c \<Rightarrow> \<not> truthy (trimCell c) \<or> trimCell c = JStr ''NA'')"

text \<open>A clock reading whose UTC fields are in their calendar ranges, the year in four digits.\<close>

definition wellFormedDate :: "jsdate \<Rightarrow> bool" where
  "wellFormedDate d =
     (utcYear d \<le> 9999 \<and> 1 \<le> utcMonth d \<and> utcMonth d \<le> 12 \<and> 1 \<le> utcDay d \<and> utcDay d \<le> 31
      \<and> utcHours d < 24 \<and> utcMinutes d < 60 \<and> utcSeconds d < 60 \<and> utcMillis d < 1000)"

text \<open>\<open>n\<close> in decimal, zero-padded to \<open>k\<close> digits.\<close>

definition digits :: "nat \<Rightarrow> nat \<Rightarrow> string" where
  "digits k n = padStart k (CHR ''0'') (String n)"

text \<open>\<open>v[k]\<close> on a value: only an object has named properties of its own.\<close>

definition valueProp :: "jsval \<Rightarrow> string \<Rightarrow> jsval" where
  "valueProp v k = (case v of JObj ps \<Rightarrow> getProp ps k | _ \<Rightarrow> JUndefined)"

section \<open>Sample environment\<close>

text \<open>A clock reading and a Date constructor that rejects every value.\<close>

definition sampleNow :: jsdate where
  "sampleNow = \<lparr>utcYear = 2026, utcMonth = 11, utcDay = 3, utcHours = 9, utcMinutes = 5,
     utcSeconds = 7, utcMillis = 12\<rparr>"

definition fixedClock :: clock where
  "fixedClock i = (sampleNow, sampleNow)"

definition neverParses :: "jsval \<Rightarrow> jsdate option" where
  "neverParses v = None"

text \<open>A store that cannot be reached: every call rejects with a network error, which has
  neither \<open>insertedDocs\<close> nor \<open>writeErrors\<close>.\<close>

definition networkError :: js_error where
  "networkError =
     \<lparr>errName = ''MongoNetworkError'', errMessage = Some ''connection timed out'',
      statusCode = None, errCode = None, keyValueKeys = [], errorMessages = [],
      insertedDocs = None, writeErrors = None\<rparr>"

definition unreachableStore :: "unit insertMany" where
  "unreachableStore st batch = (Rejected networkError, st)"

text \<open>The store of the spec with sample texts and no constraint on the other fields, and a
  state of it with one record.\<close>

definition sampleNumberText :: "rat \<Rightarrow> string" where
  "sampleNumberText n = String (nat \<lfloor>n\<rfloor>)"

definition sampleDuplicateText :: "string \<Rightarrow> string" where
  "sampleDuplicateText k = ''E11000 duplicate key error, dup key: '' @ k"

definition noConstraint :: "obj \<Rightarrow> string option" where
  "noConstraint r = None"

definition sampleEnv :: store_env where
  "sampleEnv =
     \<lparr>numberText = sampleNumberText, dateText = toISOString, duplicateText = sampleDuplicateText,
      requiredText = ''serialNumber is required'', fieldConstraint = noConstraint\<rparr>"

definition sampleStore :: "obj list insertMany" where
  "sampleStore = storeInsertMany sampleEnv"

definition existingDocs :: "obj list" where
  "existingDocs = [[(''serialNumber'', JStr ''AB1'')]]"

text \<open>A store that accepts every batch and keeps the list of the batches it was given.\<close>

definition recordingStore :: "obj list list insertMany" where
  "recordingStore calls batch = (Resolved batch, calls @ [batch])"

section \<open>Sample rows\<close>

text \<open>Spreadsheet rows, and the rows the normalizer makes of them with the sample clock and
  the creator \<open>u1\<close>: at index 0, and for the last two at index 1.\<close>

definition phoneRow :: obj where
  "phoneRow = [(''Type'', JStr '' Phone ''), (''Company'', JStr '' Acme ''),
     (''Purchase Date'', JStr ''not a date'')]"

definition phoneAsset :: obj where
  "phoneAsset = [(''createdBy'', JStr ''u1''), (''device'', JStr ''Other''), (''companyName'', JStr ''Acme''),
     (''dateOfPurchase'', JDate sampleNow), (''branch'', JStr ''NA''), (''department'', JStr ''NA''),
     (''userName'', JStr ''NA''), (''brand'', JStr ''NA''), (''deviceSerialNo'', JStr ''NA''),
     (''operatingSystem'', JStr ''NA''), (''remark'', JStr ''NA''), (''status'', JStr ''Active''),
     (''serialNumber'', JStr ''IT-20261103-090507-0001''), (''_rowIndex'', JNum 2)]"

definition companyRow :: obj where
  "companyRow = [(''Company'', JStr ''Acme'')]"

definition companyAsset :: obj where
  "companyAsset = [(''createdBy'', JStr ''u1''), (''companyName'', JStr ''Acme''), (''branch'', JStr ''NA''),
     (''department'', JStr ''NA''), (''userName'', JStr ''NA''), (''brand'', JStr ''NA''),
     (''device'', JStr ''NA''), (''deviceSerialNo'', JStr ''NA''), (''operatingSystem'', JStr ''NA''),
     (''remark'', JStr ''NA''), (''status'', JStr ''Active''), (''dateOfPurchase'', JDate sampleNow),
     (''serialNumber'', JStr ''IT-20261103-090507-0001''), (''_rowIndex'', JNum 2)]"

definition laptopRow :: obj where
  "laptopRow = [(''Type'', JStr '' lapTOP ''), (''Company'', JNum 42), (''Dept'', JNum 0)]"

definition laptopAsset :: obj where
  "laptopAsset = [(''createdBy'', JStr ''u1''), (''device'', JStr ''Laptop''), (''companyName'', JNum 42),
     (''department'', JStr ''NA''), (''branch'', JStr ''NA''), (''userName'', JStr ''NA''),
     (''brand'', JStr ''NA''), (''deviceSerialNo'', JStr ''NA''), (''operatingSystem'', JStr ''NA''),
     (''remark'', JStr ''NA''), (''status'', JStr ''Active''), (''dateOfPurchase'', JDate sampleNow),
     (''serialNumber'', JStr ''IT-20261103-090507-0001''), (''_rowIndex'', JNum 2)]"

definition blankRow :: obj where
  "blankRow = [(''Sr No'', JStr []), (''Company'', JStr ''  ''), (''Type'', JStr [])]"

definition companyAsset2 :: obj where
  "companyAsset2 = [(''createdBy'', JStr ''u1''), (''companyName'', JStr ''Acme''), (''branch'', JStr ''NA''),
     (''department'', JStr ''NA''), (''userName'', JStr ''NA''), (''brand'', JStr ''NA''),
     (''device'', JStr ''NA''), (''deviceSerialNo'', JStr ''NA''), (''operatingSystem'', JStr ''NA''),
     (''remark'', JStr ''NA''), (''status'', JStr ''Active''), (''dateOfPurchase'', JDate sampleNow),
     (''serialNumber'', JStr ''IT-20261103-090507-0002''), (''_rowIndex'', JNum 3)]"

definition blankAsset2 :: obj where
  "blankAsset2 = [(''createdBy'', JStr ''u1''), (''serialNumber'', JStr ''IT-20261103-090507-0002''),
     (''companyName'', JStr ''NA''), (''device'', JStr ''NA''), (''branch'', JStr ''NA''),
     (''department'', JStr ''NA''), (''userName'', JStr ''NA''), (''brand'', JStr ''NA''),
     (''deviceSerialNo'', JStr ''NA''), (''operatingSystem'', JStr ''NA''), (''remark'', JStr ''NA''),
     (''status'', JStr ''Active''), (''dateOfPurchase'', JDate sampleNow), (''_rowIndex'', JNum 3)]"

text \<open>A row with a serial number and nothing else, and what the normalizer makes of it at
  index 0.\<close>

definition serialOnlyRow :: obj where
  "serialOnlyRow = [(''Sr No'', JStr ''X1'')]"

definition serialOnlyAsset :: obj where
  "serialOnlyAsset = [(''createdBy'', JStr ''u1''), (''serialNumber'', JStr ''X1''),
     (''companyName'', JStr ''NA''), (''branch'', JStr ''NA''), (''department'', JStr ''NA''),
     (''userName'', JStr ''NA''), (''brand'', JStr ''NA''), (''device'', JStr ''NA''),
     (''deviceSerialNo'', JStr ''NA''), (''operatingSystem'', JStr ''NA''), (''remark'', JStr ''NA''),
     (''status'', JStr ''Active''), (''dateOfPurchase'', JDate sampleNow), (''_rowIndex'', JNum 2)]"

section \<open>Properties of objects and strings\<close>

lemma getProp_setProp [simp]:
  "getProp (setProp k v ob) k' = (if k' = k then v else getProp ob k')"
  by (simp add: getProp_def setProp_def update_conv')

lemma getProp_deleteProp [simp]:
  "getProp (deleteProp k ob) k' = (if k' = k then JUndefined else getProp ob k')"
  by (simp add: getProp_def deleteProp_def delete_conv')

lemma getProp_Nil [simp]: "getProp [] k = JUndefined"
  by (simp add: getProp_def)

lemma getProp_Cons [simp]: "getProp ((k, v) # ob) k' = (if k' = k then v else getProp ob k')"
  by (simp add: getProp_def)

lemma truthy_JStr_Nil [simp]: "\<not> truthy (JStr [])"
  by simp

section \<open>The normalized row, field by field\<close>

lemma mappedCell_snoc:
  "mappedCell f (row @ [kv]) =
     (if columnMap_lookup (trim (toLowerCase (fst kv))) = Some f then Some (snd kv) else mappedCell f row)"
  by (simp add: mappedCell_def)

lemma mappedCell_Nil [simp]: "mappedCell f [] = None"
  by (simp add: mappedCell_def)

lemma getProp_foldl_mapCell:
  "getProp (foldl (mapCell pd) a row) f =
     (case mappedCell f row of None \<Rightarrow> getProp a f | Some c \<Rightarrow> cellValue pd f c)"
proof (induction row rule: rev_induct)
  case Nil
  show ?case by simp
next
  case (snoc kv row)
  show ?case
  proof (cases "columnMap_lookup (trim (toLowerCase (fst kv)))")
    case None
    then show ?thesis
      using snoc.IH by (simp add: mappedCell_snoc mapCell_def)
  next
    case (Some sf)
    then show ?thesis
      using snoc.IH by (simp add: mappedCell_snoc mapCell_def)
  qed
qed

lemma getProp_mapColumns:
  "f \<noteq> ''createdBy'' \<Longrightarrow> getProp (mapColumns pd cb row) f =
     (case mappedCell f row of None \<Rightarrow> JUndefined | Some c \<Rightarrow> cellValue pd f c)"
  by (simp add: mapColumns_def getProp_foldl_mapCell split: option.split)

lemma getProp_defaultField:
  "getProp (defaultField a g) f =
     (if f = g \<and> \<not> truthy (getProp a f) then JStr ''NA'' else getProp a f)"
  by (auto simp: defaultField_def)

lemma getProp_foldl_defaultField:
  "getProp (foldl defaultField a fs) f =
     (if f \<in> set fs \<and> \<not> truthy (getProp a f) then JStr ''NA'' else getProp a f)"
proof (induction fs arbitrary: a)
  case Nil
  show ?case by simp
next
  case (Cons g fs)
  show ?case
    by (auto simp: Cons.IH getProp_defaultField)
qed

lemma getProp_defaultText:
  "getProp (defaultText a) f =
     (if f \<in> set textFields \<and> \<not> truthy (getProp a f) then JStr ''NA'' else getProp a f)"
  by (simp add: defaultText_def getProp_foldl_defaultField)

lemma truthy_defaultText:
  "f \<in> set textFields \<Longrightarrow> truthy (getProp (defaultText a) f)"
  by (simp add: getProp_defaultText)

lemma getProp_defaultStatus:
  "f \<noteq> ''status'' \<Longrightarrow> getProp (defaultStatus a) f = getProp a f"
  by (simp add: defaultStatus_def)

lemma getProp_defaultDate_other:
  "f \<noteq> ''dateOfPurchase'' \<Longrightarrow> getProp (defaultDate now a) f = getProp a f"
  by (simp add: defaultDate_def)

lemma getProp_autoSerial_other:
  "f \<noteq> ''serialNumber'' \<Longrightarrow> getProp (autoSerial now i a) f = getProp a f"
  by (simp add: autoSerial_def)

lemma normalizeDevice_Inr:
  "normalizeDevice a = Inr a' \<Longrightarrow> f \<noteq> ''device'' \<Longrightarrow> getProp a' f = getProp a f"
  by (auto simp: normalizeDevice_def split: if_splits jsval.splits)

lemma normalizeRow_Inr:
  assumes "normalizeRow pd clk cb i row = Inr a"
  obtains a' where "normalizeDevice (defaultText (mapColumns pd cb row)) = Inr a'"
    and "a = setProp ''_rowIndex'' (JNum (of_nat (i + 2)))
                (autoSerial (snd (clk i)) i (defaultDate (fst (clk i)) (defaultStatus a')))"
  using assms by (auto simp: normalizeRow_def split: sum.splits)

lemma normalizeRow_other_field:
  assumes "normalizeRow pd clk cb i row = Inr a"
    and "f \<notin> {''_rowIndex'', ''serialNumber'', ''dateOfPurchase'', ''status'', ''device''}"
  shows "getProp a f = getProp (defaultText (mapColumns pd cb row)) f"
proof -
  from assms(1) obtain a' where d: "normalizeDevice (defaultText (mapColumns pd cb row)) = Inr a'"
    and a: "a = setProp ''_rowIndex'' (JNum (of_nat (i + 2)))
                (autoSerial (snd (clk i)) i (defaultDate (fst (clk i)) (defaultStatus a')))"
    by (rule normalizeRow_Inr)
  from assms(2) have "getProp a f = getProp a' f"
    by (simp add: a getProp_autoSerial_other getProp_defaultDate_other getProp_defaultStatus)
  also from d assms(2) have "\<dots> = getProp (defaultText (mapColumns pd cb row)) f"
    by (simp add: normalizeDevice_Inr)
  finally show ?thesis .
qed

lemma textFields_not_createdBy: "f \<in> set textFields \<Longrightarrow> f \<noteq> ''createdBy''"
  by (auto simp: textFields_def)

section \<open>JSON bulk import: the creator reference\<close>

text \<open>
  C10. In \<open>bulkCreateAssets\<close>, once the request has passed the three checks, the store is
  called once, on the list that holds for every element of \<open>assets\<close>, in order, its
  properties with \<open>createdBy\<close> set to the \<open>createdBy\<close> of the request: a \<open>createdBy\<close> of the
  element itself is overwritten, every other property is kept, and the outcome of the
  handler is what it makes of the result of that call.
\<close>

theorem bulk_createdBy_is_request_level:
  assumes "elems \<noteq> []" and "length elems \<le> 1000" and "truthy createdBy"
  shows "bulkCreateAssets insertMany st (JArr elems) createdBy
           = bulkRespond (insertMany st (map (withCreator createdBy) elems))
         \<and> length (map (withCreator createdBy) elems) = length elems
         \<and> (\<forall>i < length elems.
               getProp (map (withCreator createdBy) elems ! i) ''createdBy'' = createdBy
             \<and> (\<forall>k. k \<noteq> ''createdBy'' \<longrightarrow>
                    getProp (map (withCreator createdBy) elems ! i) k = getProp (spread (elems ! i)) k)
             \<and> (distinct (map fst (spread (elems ! i))) \<longrightarrow>
                  (\<forall>v. (''createdBy'', v) \<in> set (map (withCreator createdBy) elems ! i) \<longrightarrow> v = createdBy)))"
proof -
  have call: "bulkCreateAssets insertMany st (JArr elems) createdBy
                = bulkRespond (insertMany st (map (withCreator createdBy) elems))"
    using assms by (simp add: bulkCreateAssets_def)
  have own: "\<And>ob v. distinct (map fst ob) \<Longrightarrow> (''createdBy'', v) \<in> set (withCreator createdBy (JObj ob))
                \<Longrightarrow> v = createdBy"
  proof -
    fix ob :: obj and v
    assume d: "distinct (map fst ob)" and m: "(''createdBy'', v) \<in> set (withCreator createdBy (JObj ob))"
    have "distinct (map fst (AList.update ''createdBy'' createdBy ob))"
      using d by (simp add: distinct_update)
    then have "map_of (AList.update ''createdBy'' createdBy ob) ''createdBy'' = Some v"
      using m by (simp add: withCreator_def setProp_def)
    then show "v = createdBy"
      by (simp add: update_conv')
  qed
  have elemwise: "\<And>e v. distinct (map fst (spread e)) \<Longrightarrow> (''createdBy'', v) \<in> set (withCreator createdBy e)
                \<Longrightarrow> v = createdBy"
  proof -
    fix e v
    assume d: "distinct (map fst (spread e))" and m: "(''createdBy'', v) \<in> set (withCreator createdBy e)"
    have "withCreator createdBy e = withCreator createdBy (JObj (spread e))"
      by (simp add: withCreator_def)
    with own [of "spread e" v] d m show "v = createdBy"
      by simp
  qed
  show ?thesis
    using call elemwise by (auto simp: withCreator_def)
qed

theorem bulk_createdBy_is_request_level_witness:
  "bulkCreateAssets sampleStore []
     (JArr [JObj [(''serialNumber'', JStr ''ab1''), (''createdBy'', JStr ''someone else'')]]) (JStr ''u1'')
     = bulkRespond (sampleStore [] [[(''serialNumber'', JStr ''ab1''), (''createdBy'', JStr ''u1'')]])
   \<and> getProp (withCreator (JStr ''u1'')
        (JObj [(''serialNumber'', JStr ''ab1''), (''createdBy'', JStr ''someone else'')])) ''createdBy''
     = JStr ''u1''"
  using bulk_createdBy_is_request_level
    [of "[JObj [(''serialNumber'', JStr ''ab1''), (''createdBy'', JStr ''someone else'')]]"
        "JStr ''u1''" sampleStore "[]"]
  by (simp add: withCreator_def setProp_def)

section \<open>Store failures\<close>

text \<open>
  C8 at a concrete request. The sheet has one row with a company, the creator is given,
  and the store cannot be reached: \<open>insertMany\<close> rejects with an error that has neither
  \<open>insertedDocs\<close> nor \<open>writeErrors\<close>. \<open>uploadExcel\<close> answers 201 with a report of nothing
  created and nothing failed; \<open>bulkCreateAssets\<close>, on the same store, throws the error
  again and it reaches the error handler, which answers 500.
\<close>

theorem upload_swallows_store_failure:
  "uploadExcel neverParses fixedClock unreachableStore ()
     \<lparr>req_file = Some (Sheet [[(''Company'', JStr ''Acme'')]]), req_createdBy = JStr ''u1''\<rparr>
     = (Sent \<lparr>status = 201, success = True,
              rdata = JObj [(''totalRows'', JNum 1), (''created'', JNum 0), (''failed'', JNum 0),
                            (''skippedEmptyRows'', JNum 0), (''insertErrors'', JArr [])],
              rmessage = ''Excel processed: 0 created, 0 failed''\<rparr>, ())
   \<and> fst (bulkCreateAssets unreachableStore () (JArr [JObj [(''companyName'', JStr ''Acme'')]]) (JStr ''u1''))
     = Next networkError
   \<and> status (errorHandler networkError) = 500"
proof -
  have norm: "normalizeRows neverParses fixedClock (JStr ''u1'') 0 [[(''Company'', JStr ''Acme'')]]
      = Inr [[(''createdBy'', JStr ''u1''), (''companyName'', JStr ''Acme''), (''branch'', JStr ''NA''),
              (''department'', JStr ''NA''), (''userName'', JStr ''NA''), (''brand'', JStr ''NA''),
              (''device'', JStr ''NA''), (''deviceSerialNo'', JStr ''NA''),
              (''operatingSystem'', JStr ''NA''), (''remark'', JStr ''NA''), (''status'', JStr ''Active''),
              (''dateOfPurchase'', JDate sampleNow),
              (''serialNumber'', JStr ''IT-20261103-090507-0001''), (''_rowIndex'', JNum 2)]]"
    by code_simp
  have upload: "uploadExcel neverParses fixedClock unreachableStore ()
     \<lparr>req_file = Some (Sheet [[(''Company'', JStr ''Acme'')]]), req_createdBy = JStr ''u1''\<rparr>
     = (Sent \<lparr>status = 201, success = True,
              rdata = JObj [(''totalRows'', JNum 1), (''created'', JNum 0), (''failed'', JNum 0),
                            (''skippedEmptyRows'', JNum 0), (''insertErrors'', JArr [])],
              rmessage = ''Excel processed: 0 created, 0 failed''\<rparr>, ())"
    by (simp add: uploadExcel_def norm filterValid_def hasData_def dataFields_def deleteProp_def
        insertBatches.simps batchSize_def slice_def insertBatch_def unreachableStore_def
        networkError_def uploadReport_def send_def String.simps [of 0] digitChar_def decimalDigits_def
        del: normalizeRows.simps)
  have bulk: "fst (bulkCreateAssets unreachableStore () (JArr [JObj [(''companyName'', JStr ''Acme'')]]) (JStr ''u1''))
     = Next networkError"
    by (simp add: bulkCreateAssets_def bulkRespond_def unreachableStore_def networkError_def)
  have handler: "status (errorHandler networkError) = 500"
    by (simp add: networkError_def errorHandler_def)
  from upload bulk handler show ?thesis
    by simp
qed
section \<open>Lemmas on the device match and the text fields\<close>

lemma matchDevice_cases:
  "(matchDevice s \<in> set validDevices \<and> toLowerCase (matchDevice s) = toLowerCase s)
   \<or> (matchDevice s = ''Other'' \<and> (\<forall>d \<in> set validDevices. toLowerCase d \<noteq> toLowerCase s))"
proof (cases "find (\<lambda>d. toLowerCase d = toLowerCase s) validDevices")
  case None
  then have "matchDevice s = ''Other''"
    by (simp add: matchDevice_def)
  moreover from None have "\<forall>d \<in> set validDevices. toLowerCase d \<noteq> toLowerCase s"
    by (simp add: find_None_iff)
  ultimately show ?thesis
    by simp
next
  case (Some d)
  then have "d \<in> set validDevices \<and> toLowerCase d = toLowerCase s"
    by (auto simp: find_Some_iff)
  with Some show ?thesis
    by (simp add: matchDevice_def)
qed

lemma matchDevice_valid: "matchDevice s \<in> set validDevices"
  using matchDevice_cases [of s] by (auto simp: validDevices_def)

lemma matchDevice_nonempty: "matchDevice s \<noteq> []"
  using matchDevice_valid [of s] by (auto simp: validDevices_def)

lemma matchDevice_NA: "matchDevice ''NA'' = ''NA''"
  by (simp add: matchDevice_def validDevices_def toLowerCase_def lowerChar_def)

lemma cellValue_text: "f \<noteq> ''dateOfPurchase'' \<Longrightarrow> cellValue pd f c = trimCell c"
  by (simp add: cellValue_def)

lemma textFields_facts:
  "f \<in> set textFields \<Longrightarrow> f \<noteq> ''createdBy'' \<and> f \<noteq> ''dateOfPurchase'' \<and> f \<noteq> ''_rowIndex''
     \<and> f \<noteq> ''serialNumber'' \<and> f \<noteq> ''status''"
  by (auto simp: textFields_def)

lemma getProp_text_before_device:
  assumes "f \<in> set textFields"
  shows "getProp (defaultText (mapColumns pd cb row)) f =
     (case mappedCell f row of None \<Rightarrow> JStr ''NA''
      | Some c \<Rightarrow> if truthy (trimCell c) then trimCell c else JStr ''NA'')"
  using assms textFields_facts [OF assms]
  by (simp add: getProp_defaultText getProp_mapColumns cellValue_text split: option.split)

lemma normalizeRow_device:
  assumes "normalizeRow pd clk cb i row = Inr a"
  shows "\<exists>s. getProp (defaultText (mapColumns pd cb row)) ''device'' = JStr s \<and> s \<noteq> []
           \<and> getProp a ''device'' = JStr (matchDevice s)"
proof -
  from assms obtain a' where d: "normalizeDevice (defaultText (mapColumns pd cb row)) = Inr a'"
    and a: "a = setProp ''_rowIndex'' (JNum (of_nat (i + 2)))
                (autoSerial (snd (clk i)) i (defaultDate (fst (clk i)) (defaultStatus a')))"
    by (rule normalizeRow_Inr)
  have t: "truthy (getProp (defaultText (mapColumns pd cb row)) ''device'')"
    by (rule truthy_defaultText) (simp add: textFields_def)
  have "getProp a ''device'' = getProp a' ''device''"
    by (simp add: a getProp_autoSerial_other getProp_defaultDate_other getProp_defaultStatus)
  with d t show ?thesis
    by (auto simp: normalizeDevice_def split: jsval.splits)
qed

lemma device_block_result:
  assumes "\<forall>c. mappedCell ''device'' row = Some c \<longrightarrow> truthy (trimCell c) \<longrightarrow> (\<exists>s. c = JStr s)"
  shows "\<exists>a d. normalizeRow pd clk cb i row = Inr a \<and> getProp a ''device'' = JStr d
           \<and> d \<in> set validDevices
           \<and> (mappedCell ''device'' row = None \<longrightarrow> d = ''NA'')
           \<and> (\<forall>c. mappedCell ''device'' row = Some c \<longrightarrow> \<not> truthy (trimCell c) \<longrightarrow> d = ''NA'')
           \<and> (\<forall>s. mappedCell ''device'' row = Some (JStr s) \<longrightarrow> trim s \<noteq> [] \<longrightarrow>
                 d = matchDevice (trim s)
                 \<and> (toLowerCase d = toLowerCase (trim s)
                    \<or> d = ''Other'' \<and> (\<forall>e \<in> set validDevices. toLowerCase e \<noteq> toLowerCase (trim s))))"
proof -
  let ?m = "defaultText (mapColumns pd cb row)"
  have dev: "''device'' \<in> set textFields"
    by (simp add: textFields_def)
  have before: "getProp ?m ''device'' =
     (case mappedCell ''device'' row of None \<Rightarrow> JStr ''NA''
      | Some c \<Rightarrow> if truthy (trimCell c) then trimCell c else JStr ''NA'')"
    by (rule getProp_text_before_device [OF dev])
  have "\<exists>s. getProp ?m ''device'' = JStr s \<and> s \<noteq> []
          \<and> (mappedCell ''device'' row = None \<longrightarrow> s = ''NA'')
          \<and> (\<forall>c. mappedCell ''device'' row = Some c \<longrightarrow> \<not> truthy (trimCell c) \<longrightarrow> s = ''NA'')
          \<and> (\<forall>t. mappedCell ''device'' row = Some (JStr t) \<longrightarrow> trim t \<noteq> [] \<longrightarrow> s = trim t)"
  proof (cases "mappedCell ''device'' row")
    case None
    with before show ?thesis by simp
  next
    case (Some c)
    show ?thesis
    proof (cases "truthy (trimCell c)")
      case False
      with Some before show ?thesis
        by (auto simp: trimCell_def)
    next
      case True
      with assms Some obtain t where "c = JStr t"
        by blast
      with True Some before show ?thesis
        by (simp add: trimCell_def)
    qed
  qed
  then obtain s where s: "getProp ?m ''device'' = JStr s" "s \<noteq> []"
      "mappedCell ''device'' row = None \<longrightarrow> s = ''NA''"
      "\<forall>c. mappedCell ''device'' row = Some c \<longrightarrow> \<not> truthy (trimCell c) \<longrightarrow> s = ''NA''"
      "\<forall>t. mappedCell ''device'' row = Some (JStr t) \<longrightarrow> trim t \<noteq> [] \<longrightarrow> s = trim t"
    by (elim exE conjE)
  define a where "a = setProp ''_rowIndex'' (JNum (of_nat (i + 2)))
      (autoSerial (snd (clk i)) i (defaultDate (fst (clk i))
        (defaultStatus (setProp ''device'' (JStr (matchDevice s)) ?m))))"
  have row: "normalizeRow pd clk cb i row = Inr a"
    using s(1,2) by (simp add: normalizeRow_def normalizeDevice_def a_def)
  have d: "getProp a ''device'' = JStr (matchDevice s)"
    by (simp add: a_def getProp_autoSerial_other getProp_defaultDate_other getProp_defaultStatus)
  have na: "s = ''NA'' \<Longrightarrow> matchDevice s = ''NA''"
    by (simp add: matchDevice_NA)
  from row d s(3,4,5) na matchDevice_valid [of s] matchDevice_cases [of s] show ?thesis
    by (intro exI [of _ a] exI [of _ "matchDevice s"]) auto
qed

lemma text_fields_truthy:
  assumes "normalizeRow pd clk cb i row = Inr a" and "f \<in> set textFields"
  shows "truthy (getProp a f)"
proof (cases "f = ''device''")
  case True
  then show ?thesis
    using normalizeRow_device [OF assms(1)] matchDevice_nonempty by auto
next
  case False
  with assms(2) have "f \<notin> {''_rowIndex'', ''serialNumber'', ''dateOfPurchase'', ''status'', ''device''}"
    using textFields_facts [OF assms(2)] by simp
  then have "getProp a f = getProp (defaultText (mapColumns pd cb row)) f"
    by (rule normalizeRow_other_field [OF assms(1)])
  then show ?thesis
    using truthy_defaultText [OF assms(2)] by simp
qed

section \<open>The sample rows, normalized\<close>

lemma sample_row_phone:
  "normalizeRow neverParses fixedClock (JStr ''u1'') 0 phoneRow = Inr phoneAsset"
  by code_simp

lemma sample_row_company:
  "normalizeRow neverParses fixedClock (JStr ''u1'') 0 companyRow = Inr companyAsset"
  by code_simp

lemma sample_row_laptop:
  "normalizeRow neverParses fixedClock (JStr ''u1'') 0 laptopRow = Inr laptopAsset"
  by code_simp

lemma mappedCell_samples:
  "mappedCell ''device'' phoneRow = Some (JStr '' Phone '')"
  "mappedCell ''companyName'' phoneRow = Some (JStr '' Acme '')"
  "mappedCell ''dateOfPurchase'' phoneRow = Some (JStr ''not a date'')"
  "mappedCell ''device'' companyRow = None"
  "mappedCell ''device'' laptopRow = Some (JStr '' lapTOP '')"
  by code_simp+

lemma trim_samples:
  "trim '' Phone '' = ''Phone''" "trim '' Acme '' = ''Acme''" "trim '' lapTOP '' = ''lapTOP''"
  by code_simp+

section \<open>The text fields of a normalized row\<close>

text \<open>
  C4, as the code has it. Whenever the normalizer yields a row, each of the nine text fields
  of that row is present and non-empty. For the eight fields other than \<open>device\<close> the value
  is the cell that was mapped to the field, trimmed when it is a string, if that is truthy,
  and \<open>NA\<close> when no cell was mapped or the mapped cell is empty after trimming (or a zero or
  \<open>false\<close>). The \<open>device\<close> field is non-empty too, but it is not the trimmed cell: the device
  block replaces it.
\<close>

theorem text_fields_defaulted:
  assumes "normalizeRow pd clk cb i row = Inr a" and "f \<in> set textFields"
  shows "truthy (getProp a f) \<and> getProp a f \<noteq> JStr []
       \<and> (f \<noteq> ''device'' \<longrightarrow>
            getProp a f = (case mappedCell f row of None \<Rightarrow> JStr ''NA''
                           | Some c \<Rightarrow> if truthy (trimCell c) then trimCell c else JStr ''NA''))"
proof -
  have t: "truthy (getProp a f)"
    using assms by (rule text_fields_truthy)
  then have ne: "getProp a f \<noteq> JStr []"
    by auto
  have "getProp a f = (case mappedCell f row of None \<Rightarrow> JStr ''NA''
                       | Some c \<Rightarrow> if truthy (trimCell c) then trimCell c else JStr ''NA'')"
    if "f \<noteq> ''device''"
  proof -
    from that have "f \<notin> {''_rowIndex'', ''serialNumber'', ''dateOfPurchase'', ''status'', ''device''}"
      using textFields_facts [OF assms(2)] by simp
    then have "getProp a f = getProp (defaultText (mapColumns pd cb row)) f"
      by (rule normalizeRow_other_field [OF assms(1)])
    then show ?thesis
      by (simp add: getProp_text_before_device [OF assms(2)])
  qed
  with t ne show ?thesis
    by blast
qed

theorem text_fields_defaulted_witness:
  "normalizeRow neverParses fixedClock (JStr ''u1'') 0 phoneRow = Inr phoneAsset
   \<and> ''companyName'' \<in> set textFields
   \<and> truthy (getProp phoneAsset ''companyName'')
   \<and> getProp phoneAsset ''companyName'' = JStr ''Acme''"
proof -
  have tf: "''companyName'' \<in> set textFields"
    by (simp add: textFields_def)
  from text_fields_defaulted [OF sample_row_phone tf]
  have "truthy (getProp phoneAsset ''companyName'')"
    by blast
  moreover have "getProp phoneAsset ''companyName'' = JStr ''Acme''"
    by (simp add: phoneAsset_def)
  ultimately show ?thesis
    using sample_row_phone tf by blast
qed

text \<open>
  C4, as the claim has it, fails on the \<open>device\<close> field: a row whose device cell holds
  \<open>Phone\<close> is normalized to a row whose \<open>device\<close> is \<open>Other\<close>, not the trimmed cell.
\<close>

theorem device_not_trimmed_cell_counterexample:
  "\<not> isl (normalizeRow neverParses fixedClock (JStr ''u1'') 0 phoneRow)
   \<and> ''device'' \<in> set textFields
   \<and> mappedCell ''device'' phoneRow = Some (JStr '' Phone '')
   \<and> trimCell (JStr '' Phone '') = JStr ''Phone''
   \<and> getProp (projr (normalizeRow neverParses fixedClock (JStr ''u1'') 0 phoneRow)) ''device''
       = JStr ''Other''"
  by (simp add: sample_row_phone mappedCell_samples trimCell_def trim_samples textFields_def
      phoneAsset_def)

section \<open>The device field\<close>

text \<open>
  C2, as the code has it. When the device cell of a row is absent, or falsy, or a string,
  the normalizer yields a row, and its \<open>device\<close> is never null: it is a member of the
  handler's own list \<open>validDevices\<close>, which is the validator's enum and \<open>NA\<close>. An absent or
  empty device cell yields \<open>NA\<close>. A non-empty string yields the member of the list that
  equals it up to case, and \<open>Other\<close> when there is none.
\<close>

theorem device_normalization:
  assumes "\<forall>c. mappedCell ''device'' row = Some c \<longrightarrow> truthy (trimCell c) \<longrightarrow> (\<exists>s. c = JStr s)"
  shows "\<exists>a d. normalizeRow pd clk cb i row = Inr a \<and> getProp a ''device'' = JStr d
           \<and> d \<in> set validDevices
           \<and> (mappedCell ''device'' row = None \<longrightarrow> d = ''NA'')
           \<and> (\<forall>c. mappedCell ''device'' row = Some c \<longrightarrow> \<not> truthy (trimCell c) \<longrightarrow> d = ''NA'')
           \<and> (\<forall>s. mappedCell ''device'' row = Some (JStr s) \<longrightarrow> trim s \<noteq> [] \<longrightarrow>
                 d = matchDevice (trim s)
                 \<and> (toLowerCase d = toLowerCase (trim s)
                    \<or> d = ''Other'' \<and> (\<forall>e \<in> set validDevices. toLowerCase e \<noteq> toLowerCase (trim s))))"
  using assms by (rule device_block_result)

theorem device_normalization_witness:
  "mappedCell ''device'' laptopRow = Some (JStr '' lapTOP '')
   \<and> (\<exists>a d. normalizeRow neverParses fixedClock (JStr ''u1'') 0 laptopRow = Inr a
       \<and> getProp a ''device'' = JStr d \<and> d \<in> set validDevices \<and> d = ''Laptop'')"
proof -
  have h: "\<forall>c. mappedCell ''device'' laptopRow = Some c \<longrightarrow> truthy (trimCell c) \<longrightarrow> (\<exists>s. c = JStr s)"
    by (simp add: mappedCell_samples)
  have v: "matchDevice (trim '' lapTOP '') = ''Laptop''"
    by code_simp
  have t: "trim '' lapTOP '' \<noteq> []"
    by (simp add: trim_samples)
  from device_normalization [OF h, of neverParses fixedClock "JStr ''u1''" 0]
  obtain a d where "normalizeRow neverParses fixedClock (JStr ''u1'') 0 laptopRow = Inr a"
      and "getProp a ''device'' = JStr d" and "d \<in> set validDevices"
      and "\<forall>s. mappedCell ''device'' laptopRow = Some (JStr s) \<longrightarrow> trim s \<noteq> [] \<longrightarrow> d = matchDevice (trim s)"
    by blast
  with mappedCell_samples(5) t v show ?thesis
    by auto
qed

text \<open>
  C2, as the claim has it, fails on a row with no device cell: its \<open>device\<close> is \<open>NA\<close>, which
  is neither \<open>Other\<close> nor a member of the validator's enum.
\<close>

theorem absent_device_is_NA_counterexample:
  "mappedCell ''device'' companyRow = None
   \<and> \<not> isl (normalizeRow neverParses fixedClock (JStr ''u1'') 0 companyRow)
   \<and> getProp (projr (normalizeRow neverParses fixedClock (JStr ''u1'') 0 companyRow)) ''device''
       = JStr ''NA''
   \<and> ''NA'' \<notin> set DEVICES \<and> ''NA'' \<noteq> ''Other''"
  by (simp add: sample_row_company mappedCell_samples DEVICES_def companyAsset_def)
section \<open>The purchase date\<close>

lemma falsy_trimCell: "\<not> truthy c \<Longrightarrow> \<not> truthy (trimCell c)"
  by (cases c) (auto simp: trimCell_def trim_def)

lemma dateOfPurchase_not_text: "''dateOfPurchase'' \<notin> set textFields"
  by (simp add: textFields_def)

lemma normalizeRow_date:
  assumes "normalizeRow pd clk cb i row = Inr a"
  shows "getProp a ''dateOfPurchase'' =
     (if truthy (getProp (mapColumns pd cb row) ''dateOfPurchase'')
      then getProp (mapColumns pd cb row) ''dateOfPurchase'' else JDate (fst (clk i)))"
proof -
  from assms obtain a' where d: "normalizeDevice (defaultText (mapColumns pd cb row)) = Inr a'"
    and a: "a = setProp ''_rowIndex'' (JNum (of_nat (i + 2)))
                (autoSerial (snd (clk i)) i (defaultDate (fst (clk i)) (defaultStatus a')))"
    by (rule normalizeRow_Inr)
  have "getProp a' ''dateOfPurchase'' = getProp (defaultText (mapColumns pd cb row)) ''dateOfPurchase''"
    using d by (simp add: normalizeDevice_Inr)
  also have "\<dots> = getProp (mapColumns pd cb row) ''dateOfPurchase''"
    by (simp add: getProp_defaultText dateOfPurchase_not_text)
  finally have "getProp (defaultStatus a') ''dateOfPurchase'' = getProp (mapColumns pd cb row) ''dateOfPurchase''"
    by (simp add: getProp_defaultStatus)
  then show ?thesis
    by (simp add: a getProp_autoSerial_other defaultDate_def)
qed

text \<open>
  C3, as the code has it. Whenever the normalizer yields a row, its date of purchase is a
  Date and never null: the Date of the mapped cell when the cell holds one; the parsed Date
  when the cell holds another truthy value that parses; and the current timestamp in every
  other case, that is when no cell was mapped, when the cell is blank, and also when the
  cell fails date parsing, for the null the column loop stores is then replaced by the
  default-date block.
\<close>

theorem purchase_date_never_null:
  assumes "normalizeRow pd clk cb i row = Inr a"
  shows "getProp a ''dateOfPurchase'' =
     JDate (case mappedCell ''dateOfPurchase'' row of
              None \<Rightarrow> fst (clk i)
            | Some c \<Rightarrow>
                if truthy c
                then (case c of
                        JDate d \<Rightarrow> d
                      | _ \<Rightarrow> (case pd c of Some parsed \<Rightarrow> parsed | None \<Rightarrow> fst (clk i)))
                else fst (clk i))"
proof (cases "mappedCell ''dateOfPurchase'' row")
  case None
  then show ?thesis
    by (simp add: normalizeRow_date [OF assms] getProp_mapColumns)
next
  case (Some c)
  show ?thesis
  proof (cases "truthy c")
    case False
    then have "\<not> truthy (trimCell c)"
      by (rule falsy_trimCell)
    with False Some show ?thesis
      by (simp add: normalizeRow_date [OF assms] getProp_mapColumns cellValue_def)
  next
    case True
    with Some show ?thesis
      by (cases c; cases "pd c")
         (simp_all add: normalizeRow_date [OF assms] getProp_mapColumns cellValue_def)
  qed
qed

theorem purchase_date_never_null_witness:
  "normalizeRow neverParses fixedClock (JStr ''u1'') 0 phoneRow = Inr phoneAsset
   \<and> mappedCell ''dateOfPurchase'' phoneRow = Some (JStr ''not a date'')
   \<and> neverParses (JStr ''not a date'') = None
   \<and> getProp phoneAsset ''dateOfPurchase'' = JDate (fst (fixedClock 0))"
proof -
  have "getProp phoneAsset ''dateOfPurchase'' = JDate (fst (fixedClock 0))"
    using purchase_date_never_null [OF sample_row_phone]
    by (simp add: mappedCell_samples neverParses_def)
  then show ?thesis
    by (simp add: sample_row_phone mappedCell_samples neverParses_def)
qed

text \<open>
  C3, as the claim has it, fails on a cell that is not a date and does not parse: the row is
  normalized, and its date of purchase is the clock reading, not null.
\<close>

theorem unparsed_date_not_null_counterexample:
  "mappedCell ''dateOfPurchase'' phoneRow = Some (JStr ''not a date'')
   \<and> neverParses (JStr ''not a date'') = None
   \<and> \<not> isl (normalizeRow neverParses fixedClock (JStr ''u1'') 0 phoneRow)
   \<and> getProp (projr (normalizeRow neverParses fixedClock (JStr ''u1'') 0 phoneRow)) ''dateOfPurchase''
       = JDate sampleNow
   \<and> JDate sampleNow \<noteq> JNull"
  by (simp add: sample_row_phone mappedCell_samples neverParses_def phoneAsset_def)

section \<open>The row filter\<close>

lemma normalizeRows_Inr:
  "normalizeRows pd clk cb idx rows = Inr assets \<Longrightarrow>
     length assets = length rows
     \<and> (\<forall>j < length rows. normalizeRow pd clk cb (idx + j) (rows ! j) = Inr (assets ! j))"
proof (induction rows arbitrary: idx assets)
  case Nil
  then show ?case by simp
next
  case (Cons row rows)
  from Cons.prems obtain a as where a: "normalizeRow pd clk cb idx row = Inr a"
    and as: "normalizeRows pd clk cb (Suc idx) rows = Inr as" and eq: "assets = a # as"
    by (auto split: sum.splits)
  from Cons.IH [OF as] have len: "length as = length rows"
    and nth: "\<And>j. j < length rows \<Longrightarrow> normalizeRow pd clk cb (Suc idx + j) (rows ! j) = Inr (as ! j)"
    by auto
  show ?case
  proof (intro conjI allI impI)
    show "length assets = length (row # rows)"
      using len eq by simp
  next
    fix j assume "j < length (row # rows)"
    then show "normalizeRow pd clk cb (idx + j) ((row # rows) ! j) = Inr (assets ! j)"
      using a nth eq by (cases j) auto
  qed
qed

lemma normalizeRows_member:
  assumes "normalizeRows pd clk cb idx rows = Inr assets" and "a \<in> set assets"
  shows "\<exists>j row. normalizeRow pd clk cb j row = Inr a"
proof -
  from assms(2) obtain j where j: "j < length assets" "assets ! j = a"
    by (auto simp: in_set_conv_nth)
  with normalizeRows_Inr [OF assms(1)] have "normalizeRow pd clk cb (idx + j) (rows ! j) = Inr a"
    by auto
  then show ?thesis
    by blast
qed

lemma dataFields_text: "f \<in> set dataFields \<Longrightarrow> f \<in> set textFields"
  by (auto simp: dataFields_def textFields_def)

lemma hasData_normalized:
  assumes "normalizeRow pd clk cb i row = Inr a"
  shows "hasData a \<longleftrightarrow> (\<exists>f \<in> set dataFields. getProp a f \<noteq> JStr ''NA'' \<and> getProp a f \<noteq> JStr [])"
proof -
  have "\<And>f. f \<in> set dataFields \<Longrightarrow> truthy (getProp a f)"
    using text_fields_truthy [OF assms] dataFields_text by blast
  then show ?thesis
    by (auto simp: hasData_def list_ex_iff)
qed
lemma insertBatches_recording:
  "\<exists>batches. snd (insertBatches recordingStore i validAssets (res, calls)) = calls @ batches
      \<and> concat batches = drop i validAssets"
proof (induction recordingStore i validAssets "(res, calls)" arbitrary: res calls rule: insertBatches.induct)
  case (1 i validAssets)
  show ?case
  proof (cases "i < length validAssets")
    case False
    then show ?thesis
      by (simp add: insertBatches.simps)
  next
    case True
    let ?batch = "slice i (i + batchSize) validAssets"
    let ?res' = "res\<lparr>inserted := inserted res @ ?batch\<rparr>"
    have step: "insertBatch recordingStore ?batch (res, calls) = (?res', calls @ [?batch])"
      by (simp add: insertBatch_def recordingStore_def)
    from "1.hyps" [OF True step]
    obtain batches where b: "snd (insertBatches recordingStore (i + batchSize) validAssets (?res', calls @ [?batch]))
        = (calls @ [?batch]) @ batches" and c: "concat batches = drop (i + batchSize) validAssets"
      by blast
    have unfold: "insertBatches recordingStore i validAssets (res, calls)
        = insertBatches recordingStore (i + batchSize) validAssets (?res', calls @ [?batch])"
      using True step by (simp add: insertBatches.simps [of _ i])
    have "?batch @ drop (i + batchSize) validAssets = drop i validAssets"
      by (simp add: slice_def add.commute [of i] drop_drop [symmetric] del: drop_drop)
    with b c unfold show ?thesis
      by (intro exI [of _ "?batch # batches"]) simp
  qed
qed

lemma blank_row:
  assumes "\<forall>f \<in> set dataFields. \<forall>c. mappedCell f row = Some c \<longrightarrow> \<not> truthy (trimCell c)"
  shows "\<exists>a. normalizeRow pd clk cb i row = Inr a \<and> \<not> hasData a"
proof -
  have dev: "''device'' \<in> set dataFields"
    by (simp add: dataFields_def)
  with assms have d: "\<forall>c. mappedCell ''device'' row = Some c \<longrightarrow> \<not> truthy (trimCell c)"
    by blast
  then have "\<forall>c. mappedCell ''device'' row = Some c \<longrightarrow> truthy (trimCell c) \<longrightarrow> (\<exists>s. c = JStr s)"
    by blast
  from device_block_result [OF this, of pd clk cb i]
  obtain a dv where a: "normalizeRow pd clk cb i row = Inr a" and g: "getProp a ''device'' = JStr dv"
    and n1: "mappedCell ''device'' row = None \<longrightarrow> dv = ''NA''"
    and n2: "\<forall>c. mappedCell ''device'' row = Some c \<longrightarrow> \<not> truthy (trimCell c) \<longrightarrow> dv = ''NA''"
    by (elim exE conjE)
  from d n1 n2 have "dv = ''NA''"
    by (cases "mappedCell ''device'' row") auto
  with g have device: "getProp a ''device'' = JStr ''NA''"
    by simp
  have other: "getProp a f = JStr ''NA''" if f: "f \<in> set dataFields" and nd: "f \<noteq> ''device''" for f
  proof -
    from f have tf: "f \<in> set textFields"
      by (rule dataFields_text)
    from nd have "f \<notin> {''_rowIndex'', ''serialNumber'', ''dateOfPurchase'', ''status'', ''device''}"
      using textFields_facts [OF tf] by simp
    then have "getProp a f = getProp (defaultText (mapColumns pd cb row)) f"
      by (rule normalizeRow_other_field [OF a])
    also have "\<dots> = JStr ''NA''"
      using assms f by (auto simp: getProp_text_before_device [OF tf] split: option.split)
    finally show ?thesis .
  qed
  from device other have "\<forall>f \<in> set dataFields. getProp a f = JStr ''NA''"
    by blast
  then have "\<not> hasData a"
    by (simp add: hasData_def list_ex_iff)
  with a show ?thesis
    by blast
qed

lemma blank_rows:
  assumes "\<forall>row \<in> set rows. \<forall>f \<in> set dataFields. \<forall>c. mappedCell f row = Some c \<longrightarrow> \<not> truthy (trimCell c)"
  shows "\<exists>assets. normalizeRows pd clk cb idx rows = Inr assets \<and> filter hasData assets = []"
  using assms
proof (induction rows arbitrary: idx)
  case Nil
  show ?case by simp
next
  case (Cons row rows)
  from Cons.prems have "\<forall>f \<in> set dataFields. \<forall>c. mappedCell f row = Some c \<longrightarrow> \<not> truthy (trimCell c)"
    by simp
  from blank_row [OF this, of pd clk cb idx]
  obtain a where a: "normalizeRow pd clk cb idx row = Inr a" "\<not> hasData a"
    by blast
  from Cons.prems have "\<forall>row \<in> set rows. \<forall>f \<in> set dataFields. \<forall>c. mappedCell f row = Some c \<longrightarrow> \<not> truthy (trimCell c)"
    by simp
  from Cons.IH [OF this, of "Suc idx"]
  obtain as where as: "normalizeRows pd clk cb (Suc idx) rows = Inr as" "filter hasData as = []"
    by blast
  from a as show ?case
    by simp
qed

text \<open>
  C6, as the code has it. On the rows the normalizer yields, \<open>hasData\<close> holds exactly when
  one of the seven fields is neither \<open>NA\<close> nor the empty string. The rows that go on are the
  rows with \<open>hasData\<close>, without their \<open>_rowIndex\<close>, and a store that records its calls has
  been given these rows and no others. When at least one row is retained, the handler's
  result is the report of the batch loop run on exactly these rows, and \<open>skippedEmptyRows\<close>
  in the report is the number of rows without \<open>hasData\<close>. When no row is retained, the
  answer is 400 with the diagnostic data, which has no \<open>skippedEmptyRows\<close>, and the store
  is not called.
\<close>

theorem row_filter:
  assumes "normalizeRows pd clk cb 0 rawData = Inr assets"
  shows "(\<forall>a \<in> set assets.
            hasData a \<longleftrightarrow> (\<exists>f \<in> set dataFields. getProp a f \<noteq> JStr ''NA'' \<and> getProp a f \<noteq> JStr []))
       \<and> filterValid assets = map (deleteProp ''_rowIndex'') (filter hasData assets)
       \<and> (rawData \<noteq> [] \<longrightarrow> length rawData \<le> 5000 \<longrightarrow> truthy cb \<longrightarrow> filterValid assets \<noteq> [] \<longrightarrow>
            uploadExcel pd clk insertMany st \<lparr>req_file = Some (Sheet rawData), req_createdBy = cb\<rparr>
              = (uploadReport rawData (filterValid assets)
                   (fst (insertBatches insertMany 0 (filterValid assets) (\<lparr>inserted = [], errors = []\<rparr>, st))),
                 snd (insertBatches insertMany 0 (filterValid assets) (\<lparr>inserted = [], errors = []\<rparr>, st))))
       \<and> (rawData \<noteq> [] \<longrightarrow> length rawData \<le> 5000 \<longrightarrow> truthy cb \<longrightarrow> filterValid assets = [] \<longrightarrow>
            uploadExcel pd clk insertMany st \<lparr>req_file = Some (Sheet rawData), req_createdBy = cb\<rparr>
              = (send 400 (emptyRowsData rawData)
                   ''No valid records found. Check that your Excel has data.'', st)
            \<and> valueProp (emptyRowsData rawData) ''skippedEmptyRows'' = JUndefined)
       \<and> concat (snd (insertBatches recordingStore 0 (filterValid assets) (\<lparr>inserted = [], errors = []\<rparr>, [])))
            = filterValid assets
       \<and> uploadReport rawData (filterValid assets) res =
            send 201
              (JObj [(''totalRows'', JNum (of_nat (length rawData))),
                     (''created'', JNum (of_nat (length (inserted res)))),
                     (''failed'', JNum (of_nat (length (errors res)))),
                     (''skippedEmptyRows'', JNum (of_nat (length (filter (\<lambda>a. \<not> hasData a) assets)))),
                     (''insertErrors'', JArr (take 50 (errors res)))])
              (''Excel processed: '' @ String (length (inserted res)) @ '' created, ''
                 @ String (length (errors res)) @ '' failed'')"
proof -
  have iff: "\<forall>a \<in> set assets.
            hasData a \<longleftrightarrow> (\<exists>f \<in> set dataFields. getProp a f \<noteq> JStr ''NA'' \<and> getProp a f \<noteq> JStr [])"
  proof
    fix a assume "a \<in> set assets"
    with assms obtain j row where "normalizeRow pd clk cb j row = Inr a"
      using normalizeRows_member by blast
    then show "hasData a \<longleftrightarrow> (\<exists>f \<in> set dataFields. getProp a f \<noteq> JStr ''NA'' \<and> getProp a f \<noteq> JStr [])"
      by (rule hasData_normalized)
  qed
  have kept: "filterValid assets = map (deleteProp ''_rowIndex'') (filter hasData assets)"
    by (simp add: filterValid_def)
  have handler: "rawData \<noteq> [] \<longrightarrow> length rawData \<le> 5000 \<longrightarrow> truthy cb \<longrightarrow> filterValid assets \<noteq> [] \<longrightarrow>
            uploadExcel pd clk insertMany st \<lparr>req_file = Some (Sheet rawData), req_createdBy = cb\<rparr>
              = (uploadReport rawData (filterValid assets)
                   (fst (insertBatches insertMany 0 (filterValid assets) (\<lparr>inserted = [], errors = []\<rparr>, st))),
                 snd (insertBatches insertMany 0 (filterValid assets) (\<lparr>inserted = [], errors = []\<rparr>, st)))"
    using assms by (simp add: uploadExcel_def Let_def)
  have none_kept: "rawData \<noteq> [] \<longrightarrow> length rawData \<le> 5000 \<longrightarrow> truthy cb \<longrightarrow> filterValid assets = [] \<longrightarrow>
            uploadExcel pd clk insertMany st \<lparr>req_file = Some (Sheet rawData), req_createdBy = cb\<rparr>
              = (send 400 (emptyRowsData rawData)
                   ''No valid records found. Check that your Excel has data.'', st)
            \<and> valueProp (emptyRowsData rawData) ''skippedEmptyRows'' = JUndefined"
    using assms by (simp add: uploadExcel_def emptyRowsData_def valueProp_def)
  have calls: "concat (snd (insertBatches recordingStore 0 (filterValid assets) (\<lparr>inserted = [], errors = []\<rparr>, [])))
            = filterValid assets"
    using insertBatches_recording [of 0 "filterValid assets" "\<lparr>inserted = [], errors = []\<rparr>" "[]"]
    by auto
  have len: "length assets = length rawData"
    using normalizeRows_Inr [OF assms] by simp
  have "length (filter hasData assets) + length (filter (\<lambda>a. \<not> hasData a) assets) = length assets"
    by (rule sum_length_filter_compl)
  with len have "(of_nat (length rawData) :: rat) - of_nat (length (filterValid assets))
      = of_nat (length (filter (\<lambda>a. \<not> hasData a) assets))"
    by (simp add: filterValid_def algebra_simps flip: of_nat_add)
  then have report: "uploadReport rawData (filterValid assets) res =
            send 201
              (JObj [(''totalRows'', JNum (of_nat (length rawData))),
                     (''created'', JNum (of_nat (length (inserted res)))),
                     (''failed'', JNum (of_nat (length (errors res)))),
                     (''skippedEmptyRows'', JNum (of_nat (length (filter (\<lambda>a. \<not> hasData a) assets)))),
                     (''insertErrors'', JArr (take 50 (errors res)))])
              (''Excel processed: '' @ String (length (inserted res)) @ '' created, ''
                 @ String (length (errors res)) @ '' failed'')"
    by (simp add: uploadReport_def)
  from iff kept handler none_kept calls report show ?thesis
    by blast
qed
lemma sample_filter:
  "normalizeRows neverParses fixedClock (JStr ''u1'') 0 [companyRow, blankRow] = Inr [companyAsset, blankAsset2]"
  by code_simp

lemma hasData_samples: "hasData companyAsset" "\<not> hasData blankAsset2"
  by code_simp+

theorem row_filter_witness:
  "normalizeRows neverParses fixedClock (JStr ''u1'') 0 [companyRow, blankRow] = Inr [companyAsset, blankAsset2]
   \<and> hasData companyAsset \<and> \<not> hasData blankAsset2
   \<and> filterValid [companyAsset, blankAsset2] = [deleteProp ''_rowIndex'' companyAsset]
   \<and> concat (snd (insertBatches recordingStore 0 (filterValid [companyAsset, blankAsset2])
        (\<lparr>inserted = [], errors = []\<rparr>, []))) = [deleteProp ''_rowIndex'' companyAsset]
   \<and> uploadReport [companyRow, blankRow] (filterValid [companyAsset, blankAsset2]) \<lparr>inserted = [], errors = []\<rparr>
     = send 201
         (JObj [(''totalRows'', JNum 2), (''created'', JNum 0), (''failed'', JNum 0),
                (''skippedEmptyRows'', JNum 1), (''insertErrors'', JArr [])])
         ''Excel processed: 0 created, 0 failed''"
proof -
  note inst = row_filter [OF sample_filter, where res = "\<lparr>inserted = [], errors = []\<rparr>"
      and insertMany = recordingStore and st = "[]"]
  have f: "filterValid [companyAsset, blankAsset2] = [deleteProp ''_rowIndex'' companyAsset]"
    using inst [THEN conjunct2, THEN conjunct1] hasData_samples by simp
  have c: "concat (snd (insertBatches recordingStore 0 (filterValid [companyAsset, blankAsset2])
        (\<lparr>inserted = [], errors = []\<rparr>, []))) = [deleteProp ''_rowIndex'' companyAsset]"
    using inst [THEN conjunct2, THEN conjunct2, THEN conjunct2, THEN conjunct2, THEN conjunct1] f by simp
  have r: "uploadReport [companyRow, blankRow] (filterValid [companyAsset, blankAsset2]) \<lparr>inserted = [], errors = []\<rparr>
     = send 201
         (JObj [(''totalRows'', JNum 2), (''created'', JNum 0), (''failed'', JNum 0),
                (''skippedEmptyRows'', JNum 1), (''insertErrors'', JArr [])])
         ''Excel processed: 0 created, 0 failed''"
    using inst [THEN conjunct2, THEN conjunct2, THEN conjunct2, THEN conjunct2, THEN conjunct2]
      hasData_samples
    by (simp add: String.simps [of 0] digitChar_def decimalDigits_def)
  from sample_filter hasData_samples f c r show ?thesis
    by simp
qed

text \<open>
  C6, as the claim has it, fails on a sheet whose only row holds a serial number and nothing
  else: the row fails the test and is dropped, the answer is 400, and its data has no
  \<open>skippedEmptyRows\<close> total in which the row is counted.
\<close>

lemma sample_serial_only:
  "normalizeRows neverParses fixedClock (JStr ''u1'') 0 [serialOnlyRow] = Inr [serialOnlyAsset]"
  by code_simp

lemma hasData_serial_only: "\<not> hasData serialOnlyAsset"
  by code_simp

theorem dropped_rows_not_counted_counterexample:
  "normalizeRows neverParses fixedClock (JStr ''u1'') 0 [serialOnlyRow] = Inr [serialOnlyAsset]
   \<and> \<not> hasData serialOnlyAsset
   \<and> uploadExcel neverParses fixedClock recordingStore []
       \<lparr>req_file = Some (Sheet [serialOnlyRow]), req_createdBy = JStr ''u1''\<rparr>
     = (Sent \<lparr>status = 400, success = False, rdata = emptyRowsData [serialOnlyRow],
              rmessage = ''No valid records found. Check that your Excel has data.''\<rparr>, [])
   \<and> valueProp (emptyRowsData [serialOnlyRow]) ''skippedEmptyRows'' = JUndefined"
proof -
  have "uploadExcel neverParses fixedClock recordingStore []
       \<lparr>req_file = Some (Sheet [serialOnlyRow]), req_createdBy = JStr ''u1''\<rparr>
     = (Sent \<lparr>status = 400, success = False, rdata = emptyRowsData [serialOnlyRow],
              rmessage = ''No valid records found. Check that your Excel has data.''\<rparr>, [])"
    using hasData_serial_only
    by (simp add: uploadExcel_def sample_serial_only filterValid_def send_def
        del: normalizeRows.simps)
  moreover have "valueProp (emptyRowsData [serialOnlyRow]) ''skippedEmptyRows'' = JUndefined"
    by (simp add: emptyRowsData_def valueProp_def)
  ultimately show ?thesis
    using sample_serial_only hasData_serial_only by simp
qed

section \<open>An upload of blank rows\<close>

text \<open>
  C9, as the code has it. When the sheet has between 1 and 5000 rows, the creator is given,
  and every row is blank (absent, or falsy after trimming) in every column that maps to one
  of the seven data fields, the filter retains nothing and the answer is 400. The store is
  not called. The data of the answer holds \<open>detectedHeaders\<close>, a message and
  \<open>expectedColumns\<close>; it has no \<open>totalRows\<close>, \<open>skippedEmptyRows\<close> or \<open>created\<close>.
\<close>

theorem all_rows_blank:
  assumes "rawData \<noteq> []" and "length rawData \<le> 5000" and "truthy cb"
    and "\<forall>row \<in> set rawData. \<forall>f \<in> set dataFields. \<forall>c. mappedCell f row = Some c \<longrightarrow> \<not> truthy (trimCell c)"
  shows "uploadExcel pd clk insertMany st \<lparr>req_file = Some (Sheet rawData), req_createdBy = cb\<rparr>
           = (send 400 (emptyRowsData rawData)
                ''No valid records found. Check that your Excel has data.'', st)
         \<and> (\<exists>assets. normalizeRows pd clk cb 0 rawData = Inr assets \<and> filterValid assets = [])
         \<and> (\<exists>hs. emptyRowsData rawData =
               JObj [(''detectedHeaders'', JArr hs),
                     (''message'', JStr ''All rows appear to be empty. Make sure your Excel has data in at least one of these columns.''),
                     (''expectedColumns'', JArr (map JStr expectedColumns))])
         \<and> valueProp (emptyRowsData rawData) ''totalRows'' = JUndefined
         \<and> valueProp (emptyRowsData rawData) ''skippedEmptyRows'' = JUndefined
         \<and> valueProp (emptyRowsData rawData) ''created'' = JUndefined"
proof -
  from blank_rows [OF assms(4), of pd clk cb 0]
  obtain assets where n: "normalizeRows pd clk cb 0 rawData = Inr assets" and f: "filter hasData assets = []"
    by blast
  from f have v: "filterValid assets = []"
    by (simp add: filterValid_def)
  have "uploadExcel pd clk insertMany st \<lparr>req_file = Some (Sheet rawData), req_createdBy = cb\<rparr>
           = (send 400 (emptyRowsData rawData)
                ''No valid records found. Check that your Excel has data.'', st)"
    using assms(1-3) n v by (simp add: uploadExcel_def)
  moreover have "\<exists>assets. normalizeRows pd clk cb 0 rawData = Inr assets \<and> filterValid assets = []"
    using n v by blast
  moreover have "\<exists>hs. emptyRowsData rawData =
               JObj [(''detectedHeaders'', JArr hs),
                     (''message'', JStr ''All rows appear to be empty. Make sure your Excel has data in at least one of these columns.''),
                     (''expectedColumns'', JArr (map JStr expectedColumns))]"
    by (simp add: emptyRowsData_def)
  moreover have "valueProp (emptyRowsData rawData) ''totalRows'' = JUndefined"
    "valueProp (emptyRowsData rawData) ''skippedEmptyRows'' = JUndefined"
    "valueProp (emptyRowsData rawData) ''created'' = JUndefined"
    by (simp_all add: emptyRowsData_def valueProp_def)
  ultimately show ?thesis
    by blast
qed

lemma trim_Nil: "trim [] = []"
  by (simp add: trim_def)

lemma trim_blanks: "trim ''  '' = []"
  by code_simp

lemma blankRow_mapped:
  "mappedCell ''companyName'' blankRow = Some (JStr ''  '')"
  "mappedCell ''branch'' blankRow = None" "mappedCell ''department'' blankRow = None"
  "mappedCell ''userName'' blankRow = None" "mappedCell ''brand'' blankRow = None"
  "mappedCell ''device'' blankRow = Some (JStr [])" "mappedCell ''deviceSerialNo'' blankRow = None"
  by code_simp+

lemma blankRow_cells:
  "\<forall>f \<in> set dataFields. \<forall>c. mappedCell f blankRow = Some c \<longrightarrow> \<not> truthy (trimCell c)"
  by (simp add: dataFields_def blankRow_mapped trimCell_def trim_blanks trim_Nil)

theorem all_rows_blank_witness:
  "[blankRow] \<noteq> [] \<and> length [blankRow] \<le> 5000 \<and> truthy (JStr ''u1'')
   \<and> uploadExcel neverParses fixedClock sampleStore []
       \<lparr>req_file = Some (Sheet [blankRow]), req_createdBy = JStr ''u1''\<rparr>
     = (send 400 (emptyRowsData [blankRow])
          ''No valid records found. Check that your Excel has data.'', [])"
proof -
  have h: "\<forall>row \<in> set [blankRow]. \<forall>f \<in> set dataFields. \<forall>c. mappedCell f row = Some c \<longrightarrow> \<not> truthy (trimCell c)"
    using blankRow_cells by simp
  have "[blankRow] \<noteq> []" "length [blankRow] \<le> 5000" "truthy (JStr ''u1'')"
    by simp_all
  from all_rows_blank [OF this h, of neverParses fixedClock sampleStore "[]"] show ?thesis
    by simp
qed

text \<open>
  C9, as the claim has it, fails on a sheet of one blank row: the answer is 400, and its
  data has no \<open>skippedEmptyRows\<close>, \<open>totalRows\<close> or \<open>created\<close> to compare.
\<close>

theorem blank_upload_has_no_report_counterexample:
  "uploadExcel neverParses fixedClock sampleStore []
       \<lparr>req_file = Some (Sheet [blankRow]), req_createdBy = JStr ''u1''\<rparr>
     = (Sent \<lparr>status = 400, success = False,
              rdata = JObj [(''detectedHeaders'', JArr [JStr ''Sr No'', JStr ''Company'', JStr ''Type'']),
                            (''message'', JStr ''All rows appear to be empty. Make sure your Excel has data in at least one of these columns.''),
                            (''expectedColumns'', JArr (map JStr expectedColumns))],
              rmessage = ''No valid records found. Check that your Excel has data.''\<rparr>, [])
   \<and> valueProp (JObj [(''detectedHeaders'', JArr [JStr ''Sr No'', JStr ''Company'', JStr ''Type'']),
                            (''message'', JStr ''All rows appear to be empty. Make sure your Excel has data in at least one of these columns.''),
                            (''expectedColumns'', JArr (map JStr expectedColumns))]) ''skippedEmptyRows''
       = JUndefined
   \<and> valueProp (JObj [(''detectedHeaders'', JArr [JStr ''Sr No'', JStr ''Company'', JStr ''Type'']),
                            (''message'', JStr ''All rows appear to be empty. Make sure your Excel has data in at least one of these columns.''),
                            (''expectedColumns'', JArr (map JStr expectedColumns))]) ''totalRows''
       = JUndefined
   \<and> valueProp (JObj [(''detectedHeaders'', JArr [JStr ''Sr No'', JStr ''Company'', JStr ''Type'']),
                            (''message'', JStr ''All rows appear to be empty. Make sure your Excel has data in at least one of these columns.''),
                            (''expectedColumns'', JArr (map JStr expectedColumns))]) ''created''
       = JUndefined"
proof -
  have n: "normalizeRows neverParses fixedClock (JStr ''u1'') 0 [blankRow]
      = Inr [[(''createdBy'', JStr ''u1''), (''serialNumber'', JStr ''IT-20261103-090507-0001''),
              (''companyName'', JStr ''NA''), (''device'', JStr ''NA''), (''branch'', JStr ''NA''),
              (''department'', JStr ''NA''), (''userName'', JStr ''NA''), (''brand'', JStr ''NA''),
              (''deviceSerialNo'', JStr ''NA''), (''operatingSystem'', JStr ''NA''),
              (''remark'', JStr ''NA''), (''status'', JStr ''Active''),
              (''dateOfPurchase'', JDate sampleNow), (''_rowIndex'', JNum 2)]]"
    by code_simp
  have "uploadExcel neverParses fixedClock sampleStore []
       \<lparr>req_file = Some (Sheet [blankRow]), req_createdBy = JStr ''u1''\<rparr>
     = (Sent \<lparr>status = 400, success = False,
              rdata = JObj [(''detectedHeaders'', JArr [JStr ''Sr No'', JStr ''Company'', JStr ''Type'']),
                            (''message'', JStr ''All rows appear to be empty. Make sure your Excel has data in at least one of these columns.''),
                            (''expectedColumns'', JArr (map JStr expectedColumns))],
              rmessage = ''No valid records found. Check that your Excel has data.''\<rparr>, [])"
    by (simp add: uploadExcel_def n filterValid_def hasData_def dataFields_def send_def
        del: normalizeRows.simps)
       (simp add: emptyRowsData_def blankRow_def)
  then show ?thesis
    by (simp add: valueProp_def)
qed
section \<open>Decimal strings and the generated serial\<close>

lemma length_decimalDigits: "length decimalDigits = 10"
  by (simp add: decimalDigits_def)

lemma digitChar_digit: "n < 10 \<Longrightarrow> digitChar n \<in> set decimalDigits"
  unfolding digitChar_def by (rule nth_mem) (simp add: length_decimalDigits)

lemma digitChar_inj: "n < 10 \<Longrightarrow> m < 10 \<Longrightarrow> digitChar n = digitChar m \<Longrightarrow> n = m"
proof -
  assume "n < 10" and "m < 10" and "digitChar n = digitChar m"
  moreover have "distinct decimalDigits"
    by (simp add: decimalDigits_def)
  ultimately show "n = m"
    by (simp add: digitChar_def nth_eq_iff_index_eq length_decimalDigits)
qed

lemma digitChar_zero: "n < 10 \<Longrightarrow> digitChar n = CHR ''0'' \<Longrightarrow> n = 0"
proof -
  assume "n < 10" and "digitChar n = CHR ''0''"
  moreover have "digitChar 0 = CHR ''0''"
    by (simp add: digitChar_def decimalDigits_def)
  ultimately show "n = 0"
    using digitChar_inj [of n 0] by simp
qed

lemma String_nonempty: "String n \<noteq> []"
  by (subst String.simps) simp

lemma set_String: "set (String n) \<subseteq> set decimalDigits"
proof (induction n rule: String.induct)
  case (1 n)
  show ?case
  proof (cases "n < 10")
    case True
    then show ?thesis
      using digitChar_digit [of n] by (subst String.simps) simp
  next
    case False
    then have "set (String (n div 10)) \<subseteq> set decimalDigits"
      by (rule "1.IH")
    moreover have "digitChar (n mod 10) \<in> set decimalDigits"
      by (rule digitChar_digit) simp
    ultimately show ?thesis
      using False by (subst String.simps) simp
  qed
qed

lemma length_String: "n < 10 ^ k \<Longrightarrow> 0 < k \<Longrightarrow> length (String n) \<le> k"
proof (induction n arbitrary: k rule: String.induct)
  case (1 n)
  show ?case
  proof (cases "n < 10")
    case True
    then show ?thesis
      using "1.prems" by (subst String.simps) simp
  next
    case False
    with "1.prems" obtain k' where k: "k = Suc k'" "0 < k'"
      by (cases k; cases "k - 1") auto
    with "1.prems" have "n div 10 < 10 ^ k'"
      by (simp add: less_mult_imp_div_less mult.commute)
    with False k have "length (String (n div 10)) \<le> k'"
      using "1.IH" by blast
    with False k show ?thesis
      by (subst String.simps) simp
  qed
qed

lemma String_inj: "String n = String m \<Longrightarrow> n = m"
proof (induction n arbitrary: m rule: String.induct)
  case (1 n)
  show ?case
  proof (cases "n < 10")
    case n: True
    show ?thesis
    proof (cases "m < 10")
      case True
      with n "1.prems" show ?thesis
        by (simp add: String.simps [of n] String.simps [of m] digitChar_inj)
    next
      case False
      with n "1.prems" String_nonempty [of "m div 10"] show ?thesis
        by (simp add: String.simps [of n] String.simps [of m])
    qed
  next
    case n: False
    show ?thesis
    proof (cases "m < 10")
      case True
      with n "1.prems" String_nonempty [of "n div 10"] show ?thesis
        by (simp add: String.simps [of n] String.simps [of m])
    next
      case False
      with n "1.prems" have s: "String (n div 10) = String (m div 10)"
        and d: "digitChar (n mod 10) = digitChar (m mod 10)"
        by (simp_all add: String.simps [of n] String.simps [of m])
      from n s have "n div 10 = m div 10"
        by (rule "1.IH")
      moreover from d have "n mod 10 = m mod 10"
        by (rule digitChar_inj [rotated 2]) simp_all
      ultimately show ?thesis
        by (metis div_mult_mod_eq)
    qed
  qed
qed

lemma hd_String: "0 < n \<Longrightarrow> hd (String n) \<noteq> CHR ''0''"
proof (induction n rule: String.induct)
  case (1 n)
  show ?case
  proof (cases "n < 10")
    case True
    with "1.prems" show ?thesis
      using digitChar_zero [of n] by (subst String.simps) auto
  next
    case False
    then have "0 < n div 10"
      by (simp add: div_greater_zero_iff)
    with False have "hd (String (n div 10)) \<noteq> CHR ''0''"
      by (rule "1.IH")
    with False String_nonempty [of "n div 10"] show ?thesis
      by (subst String.simps) simp
  qed
qed

lemma dropWhile_replicate_append:
  "s \<noteq> [] \<Longrightarrow> hd s \<noteq> c \<Longrightarrow> dropWhile (\<lambda>x. x = c) (replicate k c @ s) = s"
  by (induction k) (auto simp: neq_Nil_conv)

lemma padStart_String_inj:
  assumes "padStart k (CHR ''0'') (String n) = padStart k (CHR ''0'') (String m)" and "0 < n" and "0 < m"
  shows "n = m"
proof -
  have n: "dropWhile (\<lambda>x. x = CHR ''0'') (padStart k (CHR ''0'') (String n)) = String n"
    unfolding padStart_def using String_nonempty hd_String [OF assms(2)]
    by (rule dropWhile_replicate_append)
  have m: "dropWhile (\<lambda>x. x = CHR ''0'') (padStart k (CHR ''0'') (String m)) = String m"
    unfolding padStart_def using String_nonempty hd_String [OF assms(3)]
    by (rule dropWhile_replicate_append)
  have "String n = dropWhile (\<lambda>x. x = CHR ''0'') (padStart k (CHR ''0'') (String n))"
    by (rule n [symmetric])
  also have "\<dots> = dropWhile (\<lambda>x. x = CHR ''0'') (padStart k (CHR ''0'') (String m))"
    by (simp only: assms(1))
  also have "\<dots> = String m"
    by (rule m)
  finally show ?thesis
    by (rule String_inj)
qed

lemma zero_digit: "CHR ''0'' \<in> set decimalDigits"
  by (simp add: decimalDigits_def)

lemma set_digits: "set (digits k n) \<subseteq> set decimalDigits"
proof -
  have "set (replicate (k - length (String n)) (CHR ''0'')) \<subseteq> set decimalDigits"
    using zero_digit by (simp add: set_replicate_conv_if)
  with set_String [of n] show ?thesis
    by (simp add: digits_def padStart_def)
qed

lemma length_digits: "n < 10 ^ k \<Longrightarrow> 0 < k \<Longrightarrow> length (digits k n) = k"
  using length_String [of n k] by (simp add: digits_def padStart_def)

lemma no_dash_digits: "CHR ''-'' \<notin> set (digits k n)"
proof -
  have "CHR ''-'' \<notin> set decimalDigits"
    by (simp add: decimalDigits_def)
  with set_digits [of k n] show ?thesis
    by blast
qed

lemma no_colon_digits: "CHR '':'' \<notin> set (digits k n)"
proof -
  have "CHR '':'' \<notin> set decimalDigits"
    by (simp add: decimalDigits_def)
  with set_digits [of k n] show ?thesis
    by blast
qed

lemma last_segment:
  assumes "CHR ''-'' \<notin> set N"
  shows "takeWhile (\<lambda>c. c \<noteq> CHR ''-'') (rev (P @ CHR ''-'' # N)) = rev N"
proof -
  have "rev (P @ CHR ''-'' # N) = rev N @ CHR ''-'' # rev P"
    by simp
  moreover have "takeWhile (\<lambda>c. c \<noteq> CHR ''-'') (rev N @ CHR ''-'' # rev P) = rev N"
    using assms by (subst takeWhile_append2) auto
  ultimately show ?thesis
    by simp
qed

lemma generatedSerial_split:
  "generatedSerial now i =
     (''IT-'' @ removeAll_char (CHR ''-'') (slice 0 10 (toISOString now)) @ ''-''
        @ removeAll_char (CHR '':'') (slice 11 19 (toISOString now))) @ CHR ''-'' # digits 4 (i + 1)"
  by (simp add: generatedSerial_def digits_def)

lemma generatedSerial_inj:
  assumes "generatedSerial now i = generatedSerial now' j"
  shows "i = j"
proof -
  have "rev (digits 4 (i + 1)) = rev (digits 4 (j + 1))"
    using arg_cong [OF assms, of "\<lambda>s. takeWhile (\<lambda>c. c \<noteq> CHR ''-'') (rev s)"]
    by (simp only: generatedSerial_split last_segment [OF no_dash_digits])
  then have "padStart 4 (CHR ''0'') (String (i + 1)) = padStart 4 (CHR ''0'') (String (j + 1))"
    by (simp add: digits_def)
  then have "i + 1 = j + 1"
    by (rule padStart_String_inj) simp_all
  then show ?thesis
    by simp
qed
lemma removeAll_char_digits:
  "c \<notin> set decimalDigits \<Longrightarrow> removeAll_char c (digits k n) = digits k n"
  using set_digits [of k n] by (auto simp: removeAll_char_def filter_id_conv)

lemma removeAll_char_append:
  "removeAll_char c (xs @ ys) = removeAll_char c xs @ removeAll_char c ys"
  by (simp add: removeAll_char_def)

lemma removeAll_char_Cons:
  "removeAll_char c (x # xs) = (if x = c then removeAll_char c xs else x # removeAll_char c xs)"
  by (simp add: removeAll_char_def)

lemma removeAll_char_Nil: "removeAll_char c [] = []"
  by (simp add: removeAll_char_def)

lemma generatedSerial_format:
  assumes "wellFormedDate now"
  shows "generatedSerial now i =
     ''IT-'' @ digits 4 (utcYear now) @ digits 2 (utcMonth now) @ digits 2 (utcDay now)
       @ ''-'' @ digits 2 (utcHours now) @ digits 2 (utcMinutes now) @ digits 2 (utcSeconds now)
       @ ''-'' @ digits 4 (i + 1)"
proof -
  define Y where "Y = digits 4 (utcYear now)"
  define M where "M = digits 2 (utcMonth now)"
  define D where "D = digits 2 (utcDay now)"
  define h where "h = digits 2 (utcHours now)"
  define m where "m = digits 2 (utcMinutes now)"
  define s where "s = digits 2 (utcSeconds now)"
  define ms where "ms = digits 3 (utcMillis now)"
  from assms have len: "length Y = 4" "length M = 2" "length D = 2" "length h = 2" "length m = 2" "length s = 2"
    by (simp_all add: wellFormedDate_def Y_def M_def D_def h_def m_def s_def length_digits)
  have dash: "CHR ''-'' \<notin> set decimalDigits" and colon: "CHR '':'' \<notin> set decimalDigits"
    by (simp_all add: decimalDigits_def)
  from assms have iso: "toISOString now =
      Y @ CHR ''-'' # M @ CHR ''-'' # D @ CHR ''T'' # h @ CHR '':'' # m @ CHR '':'' # s @ CHR ''.'' # ms @ ''Z''"
    by (simp add: toISOString_def wellFormedDate_def digits_def Y_def M_def D_def h_def m_def s_def ms_def)
  have d: "slice 0 10 (toISOString now) = Y @ CHR ''-'' # M @ CHR ''-'' # D"
    by (simp add: iso slice_def len)
  have t: "slice 11 19 (toISOString now) = h @ CHR '':'' # m @ CHR '':'' # s"
    by (simp add: iso slice_def len)
  have d': "removeAll_char (CHR ''-'') (Y @ CHR ''-'' # M @ CHR ''-'' # D) = Y @ M @ D"
    by (simp add: removeAll_char_append removeAll_char_Cons removeAll_char_digits [OF dash]
        Y_def M_def D_def)
  have t': "removeAll_char (CHR '':'') (h @ CHR '':'' # m @ CHR '':'' # s) = h @ m @ s"
    by (simp add: removeAll_char_append removeAll_char_Cons removeAll_char_digits [OF colon]
        h_def m_def s_def)
  show ?thesis
    by (simp add: generatedSerial_def d t d' t')
       (simp add: Y_def M_def D_def h_def m_def s_def digits_def)
qed

lemma serial_not_text: "''serialNumber'' \<notin> set textFields"
  by (simp add: textFields_def)

lemma normalizeRow_serial:
  assumes "normalizeRow pd clk cb i row = Inr a"
  shows "getProp a ''serialNumber'' =
     getProp (autoSerial (snd (clk i)) i (mapColumns pd cb row)) ''serialNumber''"
proof -
  from assms obtain a' where d: "normalizeDevice (defaultText (mapColumns pd cb row)) = Inr a'"
    and a: "a = setProp ''_rowIndex'' (JNum (of_nat (i + 2)))
                (autoSerial (snd (clk i)) i (defaultDate (fst (clk i)) (defaultStatus a')))"
    by (rule normalizeRow_Inr)
  have "getProp a' ''serialNumber'' = getProp (defaultText (mapColumns pd cb row)) ''serialNumber''"
    using d by (simp add: normalizeDevice_Inr)
  also have "\<dots> = getProp (mapColumns pd cb row) ''serialNumber''"
    by (simp add: getProp_defaultText serial_not_text)
  finally have "getProp (defaultDate (fst (clk i)) (defaultStatus a')) ''serialNumber''
      = getProp (mapColumns pd cb row) ''serialNumber''"
    by (simp add: getProp_defaultStatus getProp_defaultDate_other)
  then show ?thesis
    by (simp add: a autoSerial_def)
qed

lemma normalizeRow_serial_generated:
  assumes "normalizeRow pd clk cb i row = Inr a"
    and "case mappedCell ''serialNumber'' row of None \<Rightarrow> True
         | Some c \<Rightarrow> \<not> truthy (trimCell c) \<or> trimCell c = JStr ''NA''"
  shows "getProp a ''serialNumber'' = JStr (generatedSerial (snd (clk i)) i)"
  using assms(2)
  by (auto simp: normalizeRow_serial [OF assms(1)] autoSerial_def getProp_mapColumns cellValue_def
      split: option.splits)
text \<open>
  C5. Whenever the rows of an import are normalized, every row whose serial cell is absent,
  empty or \<open>NA\<close> gets the serial generated from the clock reading and its index; the serial
  block does so on any row it is given whose serial is falsy or \<open>NA\<close>. With a
  clock reading in the calendar ranges and an index below 9999, that serial is \<open>IT-\<close>, the
  eight digits of year, month and day, a dash, the six digits of hours, minutes and seconds,
  a dash, and the index plus one in four digits. Serials generated for different indices
  differ, whatever the clock readings, so two rows of one import that both get a generated
  serial get different ones.
\<close>

theorem generated_serials:
  assumes "normalizeRows pd clk cb 0 rawData = Inr assets"
  shows "(\<forall>k < length rawData. serialMissing (rawData ! k) \<longrightarrow>
            getProp (assets ! k) ''serialNumber'' = JStr (generatedSerial (snd (clk k)) k))
       \<and> (\<not> truthy (getProp asset ''serialNumber'') \<or> getProp asset ''serialNumber'' = JStr ''NA''
            \<longrightarrow> getProp (autoSerial now i asset) ''serialNumber'' = JStr (generatedSerial now i))
       \<and> (wellFormedDate now \<longrightarrow> i < 9999 \<longrightarrow>
            generatedSerial now i =
              ''IT-'' @ digits 4 (utcYear now) @ digits 2 (utcMonth now) @ digits 2 (utcDay now)
                @ ''-'' @ digits 2 (utcHours now) @ digits 2 (utcMinutes now) @ digits 2 (utcSeconds now)
                @ ''-'' @ digits 4 (i + 1)
            \<and> length (digits 4 (utcYear now)) = 4 \<and> length (digits 2 (utcMonth now)) = 2
            \<and> length (digits 2 (utcDay now)) = 2 \<and> length (digits 2 (utcHours now)) = 2
            \<and> length (digits 2 (utcMinutes now)) = 2 \<and> length (digits 2 (utcSeconds now)) = 2
            \<and> length (digits 4 (i + 1)) = 4)
       \<and> (i \<noteq> j \<longrightarrow> generatedSerial now i \<noteq> generatedSerial now' j)
       \<and> (\<forall>k < length rawData. \<forall>l < length rawData.
            k \<noteq> l \<longrightarrow> serialMissing (rawData ! k) \<longrightarrow> serialMissing (rawData ! l) \<longrightarrow>
            getProp (assets ! k) ''serialNumber'' \<noteq> getProp (assets ! l) ''serialNumber'')"
proof -
  have gen: "getProp (assets ! k) ''serialNumber'' = JStr (generatedSerial (snd (clk k)) k)"
    if "k < length rawData" and "serialMissing (rawData ! k)" for k
  proof -
    from that(1) have "normalizeRow pd clk cb k (rawData ! k) = Inr (assets ! k)"
      using normalizeRows_Inr [OF assms] by simp
    then show ?thesis
      using that(2) unfolding serialMissing_def by (rule normalizeRow_serial_generated)
  qed
  have fmt: "wellFormedDate now \<longrightarrow> i < 9999 \<longrightarrow>
            generatedSerial now i =
              ''IT-'' @ digits 4 (utcYear now) @ digits 2 (utcMonth now) @ digits 2 (utcDay now)
                @ ''-'' @ digits 2 (utcHours now) @ digits 2 (utcMinutes now) @ digits 2 (utcSeconds now)
                @ ''-'' @ digits 4 (i + 1)
            \<and> length (digits 4 (utcYear now)) = 4 \<and> length (digits 2 (utcMonth now)) = 2
            \<and> length (digits 2 (utcDay now)) = 2 \<and> length (digits 2 (utcHours now)) = 2
            \<and> length (digits 2 (utcMinutes now)) = 2 \<and> length (digits 2 (utcSeconds now)) = 2
            \<and> length (digits 4 (i + 1)) = 4"
    by (simp add: generatedSerial_format length_digits wellFormedDate_def)
  have step: "\<not> truthy (getProp asset ''serialNumber'') \<or> getProp asset ''serialNumber'' = JStr ''NA''
            \<longrightarrow> getProp (autoSerial now i asset) ''serialNumber'' = JStr (generatedSerial now i)"
    by (simp add: autoSerial_def)
  have inj: "i \<noteq> j \<longrightarrow> generatedSerial now i \<noteq> generatedSerial now' j"
    using generatedSerial_inj by blast
  have uniq: "getProp (assets ! k) ''serialNumber'' \<noteq> getProp (assets ! l) ''serialNumber''"
    if "k < length rawData" "l < length rawData" "k \<noteq> l"
      "serialMissing (rawData ! k)" "serialMissing (rawData ! l)" for k l
    using gen [OF that(1,4)] gen [OF that(2,5)] that(3) generatedSerial_inj by auto
  from gen step fmt inj uniq show ?thesis
    by blast
qed

lemma sample_two_rows:
  "normalizeRows neverParses fixedClock (JStr ''u1'') 0 [companyRow, companyRow]
     = Inr [companyAsset, companyAsset2]"
  by code_simp

lemma sample_serial: "generatedSerial sampleNow 0 = ''IT-20261103-090507-0001''"
  by code_simp

lemma wellFormed_sampleNow: "wellFormedDate sampleNow"
  by (simp add: wellFormedDate_def sampleNow_def)

lemma serialMissing_companyRow: "serialMissing companyRow"
  by code_simp

theorem generated_serials_witness:
  "normalizeRows neverParses fixedClock (JStr ''u1'') 0 [companyRow, companyRow]
     = Inr [companyAsset, companyAsset2]
   \<and> serialMissing companyRow
   \<and> getProp companyAsset ''serialNumber'' = JStr (generatedSerial sampleNow 0)
   \<and> generatedSerial sampleNow 0 = ''IT-20261103-090507-0001''
   \<and> wellFormedDate sampleNow
   \<and> getProp companyAsset ''serialNumber'' \<noteq> getProp companyAsset2 ''serialNumber''"
proof -
  note inst = generated_serials [OF sample_two_rows, where now = sampleNow and i = 0 and j = 1
      and now' = sampleNow]
  have a: "getProp companyAsset ''serialNumber'' = JStr (generatedSerial sampleNow 0)"
    using inst [THEN conjunct1, rule_format, of 0] serialMissing_companyRow
    by (simp add: fixedClock_def)
  have b: "getProp companyAsset ''serialNumber'' \<noteq> getProp companyAsset2 ''serialNumber''"
    using inst [THEN conjunct2, THEN conjunct2, THEN conjunct2, THEN conjunct2, rule_format, of 0 1]
      serialMissing_companyRow
    by simp
  from a b sample_two_rows serialMissing_companyRow sample_serial wellFormed_sampleNow show ?thesis
    by blast
qed

section \<open>The batch inserter on the store\<close>


lemma serialKey_number:
  "serialKey env [(''serialNumber'', JNum n)] = serialKey env [(''serialNumber'', JStr (numberText env n))]"
  by (simp add: serialKey_def castString_def)



lemma storeInsertMany_rejection:
  "storeInsertMany env docs batch = (Rejected err, docs') \<Longrightarrow> insertedDocs err \<noteq> None"
  by (auto simp: storeInsertMany_def bulkWriteError_def split: prod.splits if_splits)







section \<open>JSON bulk import: the responses\<close>

text \<open>
  C7. \<open>bulkCreateAssets\<close> answers 400 with no data, without calling the store, whenever
  \<open>assets\<close> is not an array, is empty or has more than 1000 entries, or \<open>createdBy\<close> is
  missing (falsy). Otherwise it calls the store once, on the elements with the creator set.
  The store's \<open>insertMany\<close> attaches \<open>insertedDocs\<close> to every error it rejects with; with a
  store that does so at this call, the answer is 201 with \<open>created\<close>, \<open>failed\<close>, \<open>assets\<close>
  and \<open>errors\<close>, each error an object of \<open>index\<close> and \<open>message\<close>. The handler's own branches
  are stated too: a resolved call and a rejection with \<open>insertedDocs\<close> give the report, and
  a rejection without \<open>insertedDocs\<close> is thrown again and reaches \<open>next(err)\<close>.
\<close>

theorem bulk_responses:
  "(\<not> (\<exists>elems. assets = JArr elems \<and> elems \<noteq> [] \<and> length elems \<le> 1000) \<or> \<not> truthy createdBy
      \<longrightarrow> (\<exists>m. bulkCreateAssets insertMany st assets createdBy = (send 400 JNull m, st)))
   \<and> (elems \<noteq> [] \<and> length elems \<le> 1000 \<and> truthy createdBy
      \<longrightarrow> bulkCreateAssets insertMany st (JArr elems) createdBy
            = bulkRespond (insertMany st (map (withCreator createdBy) elems)))
   \<and> (elems \<noteq> [] \<and> length elems \<le> 1000 \<and> truthy createdBy
       \<and> (\<forall>err st'. insertMany st (map (withCreator createdBy) elems) = (Rejected err, st')
              \<longrightarrow> insertedDocs err \<noteq> None)
      \<longrightarrow> (\<exists>ds es st'. bulkCreateAssets insertMany st (JArr elems) createdBy =
            (Sent \<lparr>status = 201, success = True,
                   rdata = JObj [(''created'', JNum (of_nat (length ds))),
                                 (''failed'', JNum (of_nat (length es))),
                                 (''assets'', JArr (map JObj ds)),
                                 (''errors'', JArr (map bulkErrorEntry es))],
                   rmessage = String (length ds) @ '' assets created, ''
                                @ String (length es) @ '' failed''\<rparr>, st')))
   \<and> bulkRespond (Resolved docs, st') =
       (Sent \<lparr>status = 201, success = True,
              rdata = JObj [(''created'', JNum (of_nat (length docs))), (''failed'', JNum 0),
                            (''assets'', JArr (map JObj docs)), (''errors'', JArr [])],
              rmessage = String (length docs) @ '' assets created, 0 failed''\<rparr>, st')
   \<and> (insertedDocs err = Some docs
      \<longrightarrow> (\<exists>errs. bulkRespond (Rejected err, st') =
            (Sent \<lparr>status = 201, success = True,
                   rdata = JObj [(''created'', JNum (of_nat (length docs))),
                                 (''failed'', JNum (of_nat (length errs))),
                                 (''assets'', JArr (map JObj docs)),
                                 (''errors'', JArr (map bulkErrorEntry errs))],
                   rmessage = String (length docs) @ '' assets created, ''
                                @ String (length errs) @ '' failed''\<rparr>, st')))
   \<and> (insertedDocs err = None \<longrightarrow> bulkRespond (Rejected err, st') = (Next err, st'))
   \<and> (\<exists>m. bulkErrorEntry e = JObj [(''index'', JNum (of_nat (we_index e))), (''message'', m)])"
proof -
  have reject: "\<not> (\<exists>elems. assets = JArr elems \<and> elems \<noteq> [] \<and> length elems \<le> 1000) \<or> \<not> truthy createdBy
      \<longrightarrow> (\<exists>m. bulkCreateAssets insertMany st assets createdBy = (send 400 JNull m, st))"
    by (cases assets) (auto simp: bulkCreateAssets_def)
  have accept: "elems \<noteq> [] \<and> length elems \<le> 1000 \<and> truthy createdBy
      \<longrightarrow> bulkCreateAssets insertMany st (JArr elems) createdBy
            = bulkRespond (insertMany st (map (withCreator createdBy) elems))"
    by (simp add: bulkCreateAssets_def)
  have report: "\<exists>ds es. bulkReport docs0 errs0 =
            Sent \<lparr>status = 201, success = True,
                   rdata = JObj [(''created'', JNum (of_nat (length ds))),
                                 (''failed'', JNum (of_nat (length es))),
                                 (''assets'', JArr (map JObj ds)),
                                 (''errors'', JArr (map bulkErrorEntry es))],
                   rmessage = String (length ds) @ '' assets created, ''
                                @ String (length es) @ '' failed''\<rparr>" for docs0 errs0
    unfolding bulkReport_def send_def by (intro exI [of _ docs0] exI [of _ errs0]) simp
  have created: "elems \<noteq> [] \<and> length elems \<le> 1000 \<and> truthy createdBy
       \<and> (\<forall>err st'. insertMany st (map (withCreator createdBy) elems) = (Rejected err, st')
              \<longrightarrow> insertedDocs err \<noteq> None)
      \<longrightarrow> (\<exists>ds es st'. bulkCreateAssets insertMany st (JArr elems) createdBy =
            (Sent \<lparr>status = 201, success = True,
                   rdata = JObj [(''created'', JNum (of_nat (length ds))),
                                 (''failed'', JNum (of_nat (length es))),
                                 (''assets'', JArr (map JObj ds)),
                                 (''errors'', JArr (map bulkErrorEntry es))],
                   rmessage = String (length ds) @ '' assets created, ''
                                @ String (length es) @ '' failed''\<rparr>, st'))"
  proof (intro impI, elim conjE)
    assume v: "elems \<noteq> []" "length elems \<le> 1000" "truthy createdBy"
      and c: "\<forall>err st'. insertMany st (map (withCreator createdBy) elems) = (Rejected err, st')
              \<longrightarrow> insertedDocs err \<noteq> None"
    obtain r st1 where call: "insertMany st (map (withCreator createdBy) elems) = (r, st1)"
      by (cases "insertMany st (map (withCreator createdBy) elems)")
    have "\<exists>ds0 es0. bulkRespond (r, st1) = (bulkReport ds0 es0, st1)"
    proof (cases r)
      case (Resolved ds0)
      then show ?thesis
        by (auto simp: bulkRespond_def)
    next
      case (Rejected err)
      with c call obtain ds0 where "insertedDocs err = Some ds0"
        by auto
      with Rejected show ?thesis
        by (auto simp: bulkRespond_def)
    qed
    then obtain ds0 es0 where "bulkRespond (r, st1) = (bulkReport ds0 es0, st1)"
      by blast
    with v call have "bulkCreateAssets insertMany st (JArr elems) createdBy = (bulkReport ds0 es0, st1)"
      by (simp add: bulkCreateAssets_def)
    with report [of ds0 es0] show "\<exists>ds es st'. bulkCreateAssets insertMany st (JArr elems) createdBy =
            (Sent \<lparr>status = 201, success = True,
                   rdata = JObj [(''created'', JNum (of_nat (length ds))),
                                 (''failed'', JNum (of_nat (length es))),
                                 (''assets'', JArr (map JObj ds)),
                                 (''errors'', JArr (map bulkErrorEntry es))],
                   rmessage = String (length ds) @ '' assets created, ''
                                @ String (length es) @ '' failed''\<rparr>, st')"
      by (elim exE) (intro exI, simp)
  qed
  have resolved: "bulkRespond (Resolved docs, st') =
       (Sent \<lparr>status = 201, success = True,
              rdata = JObj [(''created'', JNum (of_nat (length docs))), (''failed'', JNum 0),
                            (''assets'', JArr (map JObj docs)), (''errors'', JArr [])],
              rmessage = String (length docs) @ '' assets created, 0 failed''\<rparr>, st')"
    by (simp add: bulkRespond_def bulkReport_def send_def String.simps [of 0] digitChar_def decimalDigits_def)
  have partial: "insertedDocs err = Some docs
      \<longrightarrow> (\<exists>errs. bulkRespond (Rejected err, st') =
            (Sent \<lparr>status = 201, success = True,
                   rdata = JObj [(''created'', JNum (of_nat (length docs))),
                                 (''failed'', JNum (of_nat (length errs))),
                                 (''assets'', JArr (map JObj docs)),
                                 (''errors'', JArr (map bulkErrorEntry errs))],
                   rmessage = String (length docs) @ '' assets created, ''
                                @ String (length errs) @ '' failed''\<rparr>, st'))"
    by (auto simp: bulkRespond_def bulkReport_def send_def)
  have thrown: "insertedDocs err = None \<longrightarrow> bulkRespond (Rejected err, st') = (Next err, st')"
    by (simp add: bulkRespond_def)
  have shape: "\<exists>m. bulkErrorEntry e = JObj [(''index'', JNum (of_nat (we_index e))), (''message'', m)]"
    by (simp add: bulkErrorEntry_def)
  from reject accept created resolved partial thrown shape show ?thesis
    by (intro conjI)
qed

lemma sample_bulk_run:
  "bulkCreateAssets sampleStore existingDocs
     (JArr [JObj [(''serialNumber'', JStr ''ab1'')], JObj [(''serialNumber'', JStr ''ab2'')]]) (JStr ''u1'')
   = (Sent \<lparr>status = 201, success = True,
            rdata = JObj [(''created'', JNum 1), (''failed'', JNum 1),
                          (''assets'', JArr [JObj [(''serialNumber'', JStr ''AB2''), (''createdBy'', JStr ''u1'')]]),
                          (''errors'', JArr [JObj [(''index'', JNum 0),
                             (''message'', JStr ''E11000 duplicate key error, dup key: AB1'')]])],
            rmessage = ''1 assets created, 1 failed''\<rparr>,
      existingDocs @ [[(''serialNumber'', JStr ''AB2''), (''createdBy'', JStr ''u1'')]])"
  by code_simp

theorem bulk_responses_witness:
  "(\<exists>m. bulkCreateAssets sampleStore existingDocs (JArr []) (JStr ''u1'') = (send 400 JNull m, existingDocs))
   \<and> (\<exists>m. bulkCreateAssets sampleStore existingDocs
             (JArr [JObj [(''serialNumber'', JStr ''ab1'')], JObj [(''serialNumber'', JStr ''ab2'')]]) JUndefined
           = (send 400 JNull m, existingDocs))
   \<and> (\<exists>ds es st'. bulkCreateAssets sampleStore existingDocs
          (JArr [JObj [(''serialNumber'', JStr ''ab1'')], JObj [(''serialNumber'', JStr ''ab2'')]]) (JStr ''u1'') =
            (Sent \<lparr>status = 201, success = True,
                   rdata = JObj [(''created'', JNum (of_nat (length ds))),
                                 (''failed'', JNum (of_nat (length es))),
                                 (''assets'', JArr (map JObj ds)),
                                 (''errors'', JArr (map bulkErrorEntry es))],
                   rmessage = String (length ds) @ '' assets created, ''
                                @ String (length es) @ '' failed''\<rparr>, st'))
   \<and> bulkCreateAssets sampleStore existingDocs
        (JArr [JObj [(''serialNumber'', JStr ''ab1'')], JObj [(''serialNumber'', JStr ''ab2'')]]) (JStr ''u1'')
      = (Sent \<lparr>status = 201, success = True,
            rdata = JObj [(''created'', JNum 1), (''failed'', JNum 1),
                          (''assets'', JArr [JObj [(''serialNumber'', JStr ''AB2''), (''createdBy'', JStr ''u1'')]]),
                          (''errors'', JArr [JObj [(''index'', JNum 0),
                             (''message'', JStr ''E11000 duplicate key error, dup key: AB1'')]])],
            rmessage = ''1 assets created, 1 failed''\<rparr>,
         existingDocs @ [[(''serialNumber'', JStr ''AB2''), (''createdBy'', JStr ''u1'')]])"
proof -
  have contract: "\<forall>err st'. sampleStore existingDocs (map (withCreator (JStr ''u1''))
        [JObj [(''serialNumber'', JStr ''ab1'')], JObj [(''serialNumber'', JStr ''ab2'')]]) = (Rejected err, st')
      \<longrightarrow> insertedDocs err \<noteq> None"
    unfolding sampleStore_def using storeInsertMany_rejection by blast
  note empty = bulk_responses [where assets = "JArr []" and createdBy = "JStr ''u1''"
      and insertMany = sampleStore and st = existingDocs, THEN conjunct1]
  note nocreator = bulk_responses [where
      assets = "JArr [JObj [(''serialNumber'', JStr ''ab1'')], JObj [(''serialNumber'', JStr ''ab2'')]]"
      and createdBy = JUndefined and insertMany = sampleStore and st = existingDocs, THEN conjunct1]
  note valid = bulk_responses [where createdBy = "JStr ''u1''" and insertMany = sampleStore
      and st = existingDocs
      and elems = "[JObj [(''serialNumber'', JStr ''ab1'')], JObj [(''serialNumber'', JStr ''ab2'')]]",
      THEN conjunct2, THEN conjunct2, THEN conjunct1]
  have a: "\<exists>m. bulkCreateAssets sampleStore existingDocs (JArr []) (JStr ''u1'') = (send 400 JNull m, existingDocs)"
    using empty by simp
  have b: "\<exists>m. bulkCreateAssets sampleStore existingDocs
             (JArr [JObj [(''serialNumber'', JStr ''ab1'')], JObj [(''serialNumber'', JStr ''ab2'')]]) JUndefined
           = (send 400 JNull m, existingDocs)"
    using nocreator by simp
  have c: "\<exists>ds es st'. bulkCreateAssets sampleStore existingDocs
          (JArr [JObj [(''serialNumber'', JStr ''ab1'')], JObj [(''serialNumber'', JStr ''ab2'')]]) (JStr ''u1'') =
            (Sent \<lparr>status = 201, success = True,
                   rdata = JObj [(''created'', JNum (of_nat (length ds))),
                                 (''failed'', JNum (of_nat (length es))),
                                 (''assets'', JArr (map JObj ds)),
                                 (''errors'', JArr (map bulkErrorEntry es))],
                   rmessage = String (length ds) @ '' assets created, ''
                                @ String (length es) @ '' failed''\<rparr>, st')"
    by (rule valid [rule_format]) (simp add: contract)
  from a b c sample_bulk_run show ?thesis
    by (intro conjI)
qed

end
